theory Spec2Isabelle
  imports Complex_Main
begin

section \<open>Python and numpy values\<close>

text \<open>
  The exceptions of the source that the model distinguishes. A Python exception that leaves
  a method is the \<open>Inl\<close> branch of the method's result.
\<close>

datatype error = UnboundLocalError string | IndexError | TypeError | ValueError

text \<open>
  A numpy float is a real number or \<open>NaN\<close> (\<open>None\<close>). Arithmetic is exact: rounding and
  the two infinities of IEEE doubles are not represented; a division by zero, which numpy
  answers with a non-finite value, gives \<open>None\<close>.
\<close>

type_synonym fl = "real option"

definition isfinite :: "fl \<Rightarrow> bool" where
  "isfinite x = (x \<noteq> None)"

fun fl_add :: "fl \<Rightarrow> fl \<Rightarrow> fl" where
  "fl_add (Some a) (Some b) = Some (a + b)"
| "fl_add _ _ = None"

fun fl_sub :: "fl \<Rightarrow> fl \<Rightarrow> fl" where
  "fl_sub (Some a) (Some b) = Some (a - b)"
| "fl_sub _ _ = None"

fun fl_mul :: "fl \<Rightarrow> fl \<Rightarrow> fl" where
  "fl_mul (Some a) (Some b) = Some (a * b)"
| "fl_mul _ _ = None"

fun fl_div :: "fl \<Rightarrow> fl \<Rightarrow> fl" where
  "fl_div (Some a) (Some b) = (if b = 0 then None else Some (a / b))"
| "fl_div _ _ = None"

text \<open>Comparisons with \<open>NaN\<close> are false, \<open>NaN == NaN\<close> included.\<close>

fun fl_ge :: "fl \<Rightarrow> fl \<Rightarrow> bool" where
  "fl_ge (Some a) (Some b) = (b \<le> a)"
| "fl_ge _ _ = False"

fun fl_eq :: "fl \<Rightarrow> fl \<Rightarrow> bool" where
  "fl_eq (Some a) (Some b) = (a = b)"
| "fl_eq _ _ = False"

definition finite_values :: "fl list \<Rightarrow> real list" where
  "finite_values xs = map the (filter isfinite xs)"

text \<open>\<open>np.unique\<close>: the sorted distinct values.\<close>

definition np_unique :: "'a::linorder list \<Rightarrow> 'a list" where
  "np_unique xs = sort (remdups xs)"

text \<open>\<open>int(np.sqrt(n))\<close> for a count \<open>n\<close>.\<close>

definition isqrt :: "nat \<Rightarrow> nat" where
  "isqrt n = length (filter (\<lambda>k. k * k \<le> n) [1..<Suc n])"

section \<open>The numerical libraries\<close>

text \<open>
  \<open>histoclip\<close> calls astropy (\<open>sigma_clip\<close>, \<open>mad_std\<close>), numpy (\<open>nanmean\<close>, \<open>nanstd\<close>,
  \<open>nanmedian\<close>, \<open>histogram\<close>) and scipy (\<open>curve_fit\<close>). They are not code of the repository,
  so the model takes them as a record of functions; what is proved of \<open>histoclip\<close> for every
  such record holds whatever the libraries compute. \<open>curve_fit\<close> answers \<open>None\<close> when it
  raises (the source catches every exception of the fit).
\<close>

record numlib =
  sigma_clip :: "real \<Rightarrow> fl list \<Rightarrow> fl list"
  nanmean :: "fl list \<Rightarrow> fl"
  nanstd :: "fl list \<Rightarrow> fl"
  nanmedian :: "fl list \<Rightarrow> fl"
  mad_std :: "fl list \<Rightarrow> fl"
  histogram :: "real list \<Rightarrow> nat \<Rightarrow> nat list \<times> real list"
  curve_fit :: "real list \<Rightarrow> nat list \<Rightarrow> fl \<times> fl \<times> fl \<Rightarrow> (fl \<times> fl \<times> fl) option"

section \<open>histoclip\<close>

text \<open>
  The diagnostic axis \<open>ax\<close> is the list of the drawing calls made on it; the curves' sample
  points are not kept.
\<close>

datatype draw =
    Hist string "fl list" nat
  | Plot string
  | Axvline fl
  | Set_xlim fl
  | Set_title string
  | Set_xlabel string
  | Set_ylabel string
  | Legend

type_synonym axes = "draw list"

text \<open>
  Lines 191-206. The grid is the product of the distinct u and the distinct v cell
  coordinates; a cell holds the value of its first sample that the mask does not ignore, or
  \<open>NaN\<close>.
\<close>

definition active_visibs :: "fl list \<Rightarrow> bool list \<Rightarrow> (real \<times> real) list \<Rightarrow> real \<Rightarrow> real \<Rightarrow> fl list" where
  "active_visibs av msk gruvcoord uu vv =
     map fst (filter (\<lambda>(x, m, g). fst g = uu \<and> snd g = vv \<and> m \<noteq> True)
       (zip av (zip msk gruvcoord)))"

definition cell_value :: "fl list \<Rightarrow> bool list \<Rightarrow> (real \<times> real) list \<Rightarrow> real \<Rightarrow> real \<Rightarrow> fl" where
  "cell_value av msk gruvcoord uu vv =
     (case active_visibs av msk gruvcoord uu vv of [] \<Rightarrow> None | x # _ \<Rightarrow> x)"

definition uvgrid :: "fl list \<Rightarrow> bool list \<Rightarrow> (real \<times> real) list \<Rightarrow> fl list" where
  "uvgrid av msk gruvcoord =
     (let ugrid = np_unique (map fst gruvcoord);
          vgrid = np_unique (map snd gruvcoord)
      in concat (map (\<lambda>uu. map (\<lambda>vv. cell_value av msk gruvcoord uu vv) vgrid) ugrid))"

text \<open>
  Lines 246-274: the histogram of the clipped grid and the Gaussian fit, with the moments
  as the fit's fallback. The result is \<open>(bin_centers, widthes, popt)\<close>, \<open>popt\<close> being
  \<open>(centre, amplitude, sigma)\<close>. \<open>np.amax\<close> of an empty histogram and \<open>widthes[0]\<close> of an
  empty array raise.
\<close>

definition argmax_first :: "nat list \<Rightarrow> nat" where
  "argmax_first hs = length (takeWhile (\<lambda>h. h \<noteq> Max (set hs)) hs)"

definition fit_gaussian ::
  "numlib \<Rightarrow> fl list \<Rightarrow> nat \<Rightarrow> nat \<Rightarrow> fl \<Rightarrow> fl \<Rightarrow> error + (real list \<times> real list \<times> (fl \<times> fl \<times> fl))" where
  "fit_gaussian lib uvgridded_clipped npoints npoints_clipped average stdev =
     (let (hist, bin_edges) =
            histogram lib (finite_values uvgridded_clipped) (isqrt npoints_clipped + 1);
          lo = butlast bin_edges;
          hi = tl bin_edges;
          bin_centers = map (\<lambda>(a, b). a + 0.5 * (b - a)) (zip lo hi);
          widthes = map (\<lambda>(a, b). b - a) (zip lo hi)
      in if hist = [] then Inl ValueError
         else if length bin_centers \<le> argmax_first hist then Inl IndexError
         else
           let maxhi = Max (set hist);
               maxhiposval = bin_centers ! argmax_first hist
           in (case curve_fit lib bin_centers hist
                      (Some maxhiposval, Some (real maxhi), fl_div stdev (Some 2)) of
                 Some popt \<Rightarrow> Inr (bin_centers, widthes, popt)
               | None \<Rightarrow>
                   (case widthes of
                      [] \<Rightarrow> Inl IndexError
                    | w # _ \<Rightarrow>
                        Inr (bin_centers, widthes,
                          (average,
                           fl_div (Some (w * real npoints)) (fl_mul (Some (sqrt (2 * pi))) stdev),
                           stdev)))))"

text \<open>
  Lines 276-287. \<open>std\<close> and \<open>ave\<close> are local variables that only the four \<open>if\<close> statements
  bind; the result is \<open>(ave, std)\<close>, and reading \<open>ave\<close> in line 291 while no statement has
  bound it raises \<open>UnboundLocalError\<close>. \<open>popt\<close> is bound when the fit of lines 246-274 ran.
\<close>

definition choose_stats ::
  "string \<Rightarrow> fl \<Rightarrow> fl \<Rightarrow> fl \<Rightarrow> fl \<Rightarrow> (fl \<times> fl \<times> fl) option \<Rightarrow> error + (fl \<times> fl)" where
  "choose_stats threshmode average stdev med mad popt =
     (let b0 = None;
          b1 = (if threshmode = ''abs'' then Some (Some 0, Some 1) else b0);
          b2 = (if threshmode = ''std'' then Some (average, stdev) else b1);
          b3 = (if threshmode = ''mad'' then Some (med, mad) else b2)
      in if threshmode = ''fit''
         then (case popt of
                 None \<Rightarrow> Inl (UnboundLocalError ''popt'')
               | Some (cent, amp, sigma) \<Rightarrow> Inr (cent, sigma))
         else (case b3 of
                 None \<Rightarrow> Inl (UnboundLocalError ''ave'')
               | Some p \<Rightarrow> Inr p))"

text \<open>
  Lines 289-293: the clip. The product with \<open>np.logical_not(unflags)\<close> needs arrays of one
  shape (an array of length one, which numpy would broadcast, is answered as any other
  mismatch).
\<close>

definition clip_select :: "fl list \<Rightarrow> fl \<Rightarrow> fl \<Rightarrow> real \<Rightarrow> bool list option \<Rightarrow> error + bool list" where
  "clip_select av ave std threshold unflags =
     (let select = map (\<lambda>x. fl_ge x (fl_add ave (fl_mul (Some threshold) std))) av
      in case unflags of
           None \<Rightarrow> Inr select
         | Some u \<Rightarrow>
             if length u \<noteq> length select then Inl ValueError
             else Inr (map (\<lambda>(s, f). s \<and> \<not> f) (zip select u)))"

text \<open>
  Lines 296-359: the drawing. It reads \<open>bin_centers[0]\<close>, \<open>[1]\<close>, \<open>[-1]\<close> and \<open>[-2]\<close>, so
  a histogram of one bin raises \<open>IndexError\<close>.
\<close>

definition render_hist ::
  "axes \<Rightarrow> string \<Rightarrow> fl list \<Rightarrow> fl list \<Rightarrow> nat \<Rightarrow> real list \<Rightarrow> real list \<Rightarrow>
   fl \<Rightarrow> fl \<Rightarrow> real \<Rightarrow> error + axes" where
  "render_hist ax title uvgridded uvgridded_clipped npoints_clipped bin_centers widthes
     average stdev threshold =
     (if length bin_centers < 2 \<or> widthes = [] then Inl IndexError
      else Inr (ax @
        [Hist ''Clipped'' uvgridded_clipped (isqrt npoints_clipped + 1),
         Hist ''Unclipped'' uvgridded (isqrt npoints_clipped + 1),
         Plot ''calculated'', Plot ''fitted'', Plot ''mad'',
         Axvline (fl_sub average (fl_mul (Some threshold) stdev)),
         Axvline (fl_add average (fl_mul (Some threshold) stdev)),
         Set_xlim (if finite_values uvgridded = [] then None
                   else Some (Max (set (finite_values uvgridded)))),
         Set_title title, Set_xlabel ''Amplitude'', Set_ylabel ''PDF'', Legend]))"

text \<open>
  Lines 218-287, the estimator of location and scale: the sigma clip of the grid, the four
  candidate statistics and the choice among them by \<open>threshmode\<close>. \<open>with_ax\<close> says that
  a plot axis was passed (the fit then runs for the drawing, whatever the policy). The two
  tests \<open>average == np.nan\<close> and \<open>stdev == np.nan\<close> of lines 235-241 answer "no flags"
  (\<open>Inr None\<close>); otherwise the result is the fit, when it ran, and \<open>(ave, std)\<close>.
\<close>

type_synonym fitted = "real list \<times> real list \<times> (fl \<times> fl \<times> fl)"

definition robust_stats ::
  "numlib \<Rightarrow> fl list \<Rightarrow> nat \<Rightarrow> string \<Rightarrow> real \<Rightarrow> bool \<Rightarrow> error + (fitted option \<times> fl \<times> fl) option" where
  "robust_stats lib uvgridded npoints threshmode threshold with_ax =
     (let uvgridded_clipped = sigma_clip lib threshold uvgridded;
          npoints_clipped = length (filter isfinite uvgridded_clipped);
          average = nanmean lib uvgridded_clipped;
          stdev = nanstd lib uvgridded_clipped
      in if fl_eq average None then Inr None
         else if fl_eq stdev None then Inr None
         else
           let med = nanmedian lib uvgridded_clipped;
               mad = mad_std lib uvgridded_clipped
           in (case (if threshmode = ''fit'' \<or> with_ax
                     then map_sum id Some
                            (fit_gaussian lib uvgridded_clipped npoints npoints_clipped
                               average stdev)
                     else Inr None) of
                 Inl e \<Rightarrow> Inl e
               | Inr fit \<Rightarrow>
                   (case choose_stats threshmode average stdev med mad
                           (map_option (\<lambda>(c, w, p). p) fit) of
                      Inl e \<Rightarrow> Inl e
                    | Inr (ave, std) \<Rightarrow> Inr (Some (fit, ave, std)))))"

text \<open>
  The method; \<open>msk\<close> is its parameter \<open>mask\<close>. Arrays whose lengths differ from the
  data's are refused first (numpy raises where it combines them; the docstring asks for the
  data's shape). The result is the mask and the axis after the call.
\<close>

definition histoclip ::
  "numlib \<Rightarrow> fl list \<Rightarrow> bool list \<Rightarrow> (real \<times> real) list \<Rightarrow> bool list option \<Rightarrow> string \<Rightarrow> real \<Rightarrow>
   axes option \<Rightarrow> string \<Rightarrow> error + (bool list \<times> axes option)" where
  "histoclip lib data msk gruvcoord unflags threshmode threshold ax title =
     (let av = data in
      if \<not> (length msk = length av \<and> length gruvcoord = length av) then Inl ValueError
      else
        let uvgridded = uvgrid av msk gruvcoord;
            npoints = length (filter isfinite uvgridded)
        in if npoints < 3 then Inr (replicate (length av) False, ax)
           else
             (case robust_stats lib uvgridded npoints threshmode threshold (ax \<noteq> None) of
                Inl e \<Rightarrow> Inl e
              | Inr None \<Rightarrow> Inr (replicate (length av) False, ax)
              | Inr (Some (fit, ave, std)) \<Rightarrow>
                  (case clip_select av ave std threshold unflags of
                     Inl e \<Rightarrow> Inl e
                   | Inr select \<Rightarrow>
                       (case ax of
                          None \<Rightarrow> Inr (select, None)
                        | Some a \<Rightarrow>
                            (case fit of
                               None \<Rightarrow> Inl (UnboundLocalError ''bin_centers'')
                             | Some (bin_centers, widthes, popt) \<Rightarrow>
                                 (case render_hist a title uvgridded
                                         (sigma_clip lib threshold uvgridded)
                                         (length (filter isfinite
                                            (sigma_clip lib threshold uvgridded)))
                                         bin_centers widthes
                                         (nanmean lib (sigma_clip lib threshold uvgridded))
                                         (nanstd lib (sigma_clip lib threshold uvgridded))
                                         threshold of
                                    Inl e \<Rightarrow> Inl e
                                  | Inr a' \<Rightarrow> Inr (select, Some a')))))))"

text \<open>The number of flagged samples of a mask.\<close>

definition n_flagged :: "bool list \<Rightarrow> nat" where
  "n_flagged m = length (filter id m)"

section \<open>The libraries' documented behaviour\<close>

text \<open>
  Closed evaluations of \<open>histoclip\<close> need library functions that compute. The following
  definitions follow the documentation of numpy and astropy: the median of the finite
  values; \<open>mad_std\<close>, the median absolute deviation times 1.482602218505602 (\<open>NaN\<close> when
  the array holds a \<open>NaN\<close>); \<open>sigma_clip\<close> with \<open>sigma = threshold\<close>, \<open>maxiters = None\<close>,
  \<open>cenfunc = np.nanmedian\<close>, \<open>stdfunc = mad_std\<close>, \<open>masked = False\<close> and no axis, which
  drops the non-finite values and then removes what lies outside
  \<open>[median - sigma * mad_std, median + sigma * mad_std]\<close> until nothing changes; the
  histogram of equal-width bins over the range of the values.
\<close>

definition median :: "real list \<Rightarrow> fl" where
  "median xs =
     (let s = sort xs; n = length s
      in if n = 0 then None
         else if odd n then Some (s ! (n div 2))
         else Some ((s ! (n div 2 - 1) + s ! (n div 2)) / 2))"

definition np_nanmedian :: "fl list \<Rightarrow> fl" where
  "np_nanmedian xs = median (finite_values xs)"

definition np_nanmean :: "fl list \<Rightarrow> fl" where
  "np_nanmean xs =
     (let v = finite_values xs
      in if v = [] then None else Some (sum_list v / real (length v)))"

definition np_nanstd :: "fl list \<Rightarrow> fl" where
  "np_nanstd xs =
     (let v = finite_values xs
      in if v = [] then None
         else let m = sum_list v / real (length v)
              in Some (sqrt (sum_list (map (\<lambda>x. (x - m)\<^sup>2) v) / real (length v))))"

definition astropy_mad_std :: "fl list \<Rightarrow> fl" where
  "astropy_mad_std xs =
     (if \<not> list_all isfinite xs then None
      else case median (map the xs) of
             None \<Rightarrow> None
           | Some m \<Rightarrow>
               fl_mul (median (map (\<lambda>x. \<bar>the x - m\<bar>) xs)) (Some 1.482602218505602))"

definition clip_once :: "real \<Rightarrow> real list \<Rightarrow> real list" where
  "clip_once sigma xs =
     (let cen = median xs;
          dev = fl_mul (astropy_mad_std (map Some xs)) (Some sigma);
          min_value = fl_sub cen dev;
          max_value = fl_add cen dev
      in filter (\<lambda>x. fl_ge (Some x) min_value \<and> fl_ge max_value (Some x)) xs)"

function sigma_clip_loop :: "real \<Rightarrow> real list \<Rightarrow> real list" where
  "sigma_clip_loop sigma xs =
     (let ys = clip_once sigma xs
      in if length xs - length ys = 0 then ys else sigma_clip_loop sigma ys)"
  by pat_completeness auto
termination
  by (relation "measure (\<lambda>(sigma, xs). length xs)") auto

declare sigma_clip_loop.simps [simp del]

definition astropy_sigma_clip :: "real \<Rightarrow> fl list \<Rightarrow> fl list" where
  "astropy_sigma_clip sigma xs = map Some (sigma_clip_loop sigma (finite_values xs))"

definition np_histogram :: "real list \<Rightarrow> nat \<Rightarrow> nat list \<times> real list" where
  "np_histogram xs bins =
     (let first_edge = (if xs = [] then 0 else Min (set xs));
          last_edge = (if xs = [] then 1 else Max (set xs));
          lo = (if first_edge = last_edge then first_edge - 0.5 else first_edge);
          hi = (if first_edge = last_edge then last_edge + 0.5 else last_edge);
          bin_edges = map (\<lambda>i. lo + real i * (hi - lo) / real bins) [0..<Suc bins];
          hist = map (\<lambda>j. length (filter (\<lambda>x. bin_edges ! j \<le> x \<and>
                                (x < bin_edges ! Suc j \<or> (Suc j = bins \<and> x \<le> hi))) xs))
                   [0..<bins]
      in (hist, bin_edges))"

text \<open>A fit that does not converge: \<open>curve_fit\<close> raises and the source falls back on the moments.\<close>

definition fit_fails :: "real list \<Rightarrow> nat list \<Rightarrow> fl \<times> fl \<times> fl \<Rightarrow> (fl \<times> fl \<times> fl) option" where
  "fit_fails bin_centers hist p0 = None"

definition numpy_astropy ::
  "(real list \<Rightarrow> nat list \<Rightarrow> fl \<times> fl \<times> fl \<Rightarrow> (fl \<times> fl \<times> fl) option) \<Rightarrow> numlib" where
  "numpy_astropy fit =
     \<lparr>sigma_clip = astropy_sigma_clip, nanmean = np_nanmean, nanstd = np_nanstd,
      nanmedian = np_nanmedian, mad_std = astropy_mad_std, histogram = np_histogram,
      curve_fit = fit\<rparr>"

section \<open>phazer: the grouping of the clip\<close>

text \<open>
  Lines 920-1032. \<open>data\<close> is the one-dimensional array \<open>nmdata\<close> of line 880, \<open>flags\<close>
  the all-false array of line 924, \<open>show\<close> the plot name or \<open>None\<close>.

  In mode \<open>antenna\<close> the body of the loop starts (lines 954-958) by formatting
  \<open>t.ANTENNA.getcol("NAME")[antenna]\<close> for the log. \<open>t\<close> is a local variable of
  \<open>phazer\<close> (its only assignment is line 1158, after the loop), so at this point it is
  unbound, whatever the log level: Python evaluates the argument before the call. The
  model passes the binding of \<open>t\<close> as an option, \<open>phazer\<close> passing \<open>None\<close>. Were \<open>t\<close>
  bound, line 962 would index the one-dimensional \<open>passedflags\<close> with two subscripts,
  which numpy refuses; lines 963-978 are never reached.
\<close>

definition antenna_pass :: "string list option \<Rightarrow> int \<Rightarrow> error + bool list" where
  "antenna_pass t antenna =
     (case t of
        None \<Rightarrow> Inl (UnboundLocalError ''t'')
      | Some names \<Rightarrow> Inl IndexError)"

fun antenna_loop :: "string list option \<Rightarrow> int list \<Rightarrow> bool list \<Rightarrow> error + bool list" where
  "antenna_loop t [] newflags = Inr newflags"
| "antenna_loop t (antenna # antennas) newflags =
     (case antenna_pass t antenna of
        Inl e \<Rightarrow> Inl e
      | Inr m \<Rightarrow> antenna_loop t antennas (map (\<lambda>(a, b). a \<or> b) (zip newflags m)))"

text \<open>
  In the remaining mode (\<open>baseline\<close>) \<open>pairs\<close> is \<open>np.unique\<close> of the stacked antenna
  columns, which flattens them: each \<open>pair\<close> is a number, and \<open>pair[0]\<close> in line 989
  raises.
\<close>

definition baseline_loop :: "int list \<Rightarrow> bool list \<Rightarrow> error + bool list" where
  "baseline_loop pairs newflags = (case pairs of [] \<Rightarrow> Inr newflags | pair # _ \<Rightarrow> Inl IndexError)"

definition phazer_clip ::
  "numlib \<Rightarrow> fl list \<Rightarrow> (real \<times> real) list \<Rightarrow> int list \<Rightarrow> int list \<Rightarrow> bool list option \<Rightarrow>
   string \<Rightarrow> string \<Rightarrow> real \<Rightarrow> string option \<Rightarrow> error + (bool list \<times> axes option)" where
  "phazer_clip lib data gruvcoord antenna1 antenna2 unflags mode threshmode threshold show =
     (let flags = replicate (length data) False
      in if mode = ''all''
         then (let ax = (if show = None then None else Some [])
               in histoclip lib data flags gruvcoord unflags threshmode threshold ax '''')
         else
           let newflags = replicate (length data) False;
               antennas = np_unique (antenna1 @ antenna2)
           in if mode = ''antenna''
              then map_sum id (\<lambda>m. (m, None)) (antenna_loop None antennas newflags)
              else
                let pairs = np_unique (concat (map (\<lambda>(a, b). [a, b]) (zip antenna1 antenna2)))
                in map_sum id (\<lambda>m. (m, None)) (baseline_loop pairs newflags))"

section \<open>The wedge\<close>

text \<open>
  Lines 104-121. The source is Python 3 (it uses f-strings), where \<open>zip\<close> returns an
  iterator: a \<open>zip\<close> object has no \<open>+\<close> and no subscript. The model keeps the two kinds of
  sequence apart.
\<close>

datatype pyseq = PyList "(real \<times> real) list" | PyZip "(real \<times> real) list"

fun py_add :: "pyseq \<Rightarrow> pyseq \<Rightarrow> error + pyseq" where
  "py_add (PyList xs) (PyList ys) = Inr (PyList (xs @ ys))"
| "py_add _ _ = Inl TypeError"

fun py_first :: "pyseq \<Rightarrow> error + (real \<times> real)" where
  "py_first (PyList (x # xs)) = Inr x"
| "py_first (PyList []) = Inl IndexError"
| "py_first (PyZip xs) = Inl TypeError"

definition arctan2 :: "real \<Rightarrow> real \<Rightarrow> real" where
  "arctan2 y x =
     (if 0 < x then arctan (y / x)
      else if x < 0 \<and> 0 \<le> y then arctan (y / x) + pi
      else if x < 0 then arctan (y / x) - pi
      else if 0 < y then pi / 2
      else if y < 0 then - pi / 2
      else 0)"

definition linspace :: "real \<Rightarrow> real \<Rightarrow> nat \<Rightarrow> real list" where
  "linspace a b n = map (\<lambda>i. a + real i * (b - a) / real (n - 1)) [0..<n]"

definition wedge_around_centre :: "real \<times> real \<Rightarrow> real \<Rightarrow> real \<Rightarrow> error + pyseq" where
  "wedge_around_centre coord radrange angle =
     (let npoints = 100;
          alpha_min = arctan2 (fst coord) (snd coord) - pi * angle / 180 / 2;
          alpha_max = alpha_min + pi * angle / 180;
          rmin = sqrt ((fst coord)\<^sup>2 + (snd coord)\<^sup>2) - radrange / 2;
          rmax = rmin + radrange;
          a = linspace alpha_min alpha_max npoints;
          s = map sin a;
          c = map cos a;
          arc1 = PyZip (zip (map (\<lambda>x. rmax * x) s) (map (\<lambda>x. rmax * x) c));
          arc2 = PyZip (zip (map (\<lambda>x. rmin * x) (rev s)) (map (\<lambda>x. rmin * x) (rev c)))
      in case py_add arc1 arc2 of
           Inl e \<Rightarrow> Inl e
         | Inr arcs \<Rightarrow>
             (case py_first arc1 of
                Inl e \<Rightarrow> Inl e
              | Inr p \<Rightarrow> py_add arcs (PyList [p])))"

text \<open>
  Lines 123-139 and 1038-1060. \<open>contains_points\<close> is matplotlib's test of the points
  against the path; it is given what \<open>np.array(zip(...))\<close> wraps. The loop runs over the
  coordinates of the samples flagged by the clip.
\<close>

definition selwith_path ::
  "(pyseq \<Rightarrow> pyseq \<Rightarrow> error + bool list) \<Rightarrow> pyseq \<Rightarrow> (real \<times> real) list \<Rightarrow> error + bool list" where
  "selwith_path contains_points path uvcoords =
     contains_points path (PyZip (zip (map fst uvcoords) (map snd uvcoords)))"

fun wedge_loop ::
  "(pyseq \<Rightarrow> pyseq \<Rightarrow> error + bool list) \<Rightarrow> (real \<times> real) list \<Rightarrow> real \<Rightarrow> real \<Rightarrow>
   bool list option \<Rightarrow> (real \<times> real) list \<Rightarrow> bool list \<Rightarrow> error + bool list" where
  "wedge_loop cp uv radrange angle unflags [] newflags = Inr newflags"
| "wedge_loop cp uv radrange angle unflags (p # flaggeduv) newflags =
     (case wedge_around_centre p radrange angle of
        Inl e \<Rightarrow> Inl e
      | Inr thepath \<Rightarrow>
          (case selwith_path cp thepath uv of
             Inl e \<Rightarrow> Inl e
           | Inr inside \<Rightarrow>
               if length inside \<noteq> length newflags then Inl IndexError
               else
                 (case unflags of
                    None \<Rightarrow>
                      wedge_loop cp uv radrange angle unflags flaggeduv
                        (map (\<lambda>(f, w). f \<or> w) (zip newflags inside))
                  | Some d \<Rightarrow>
                      if length d \<noteq> length inside then Inl ValueError
                      else wedge_loop cp uv radrange angle unflags flaggeduv
                             (map (\<lambda>(f, w, n). f \<or> (w \<and> n)) (zip newflags (zip inside d))))))"

definition wedge_expand ::
  "(pyseq \<Rightarrow> pyseq \<Rightarrow> error + bool list) \<Rightarrow> (real \<times> real) list \<Rightarrow> real \<Rightarrow> real \<Rightarrow>
   bool list option \<Rightarrow> bool list \<Rightarrow> error + bool list" where
  "wedge_expand cp uv radrange angle unflags newflags =
     (if 0 < radrange \<and> 0 < angle
      then wedge_loop cp uv radrange angle unflags
             (map fst (filter snd (zip uv newflags))) newflags
      else Inr newflags)"

section \<open>readdata\<close>

text \<open>
  Lines 405-515. The visibilities are complex numbers or \<open>NaN\<close>; the data column is indexed
  by row, channel and polarisation, as is the \<open>FLAG\<close> column. \<open>fieldsel\<close> (the
  parameter \<open>fields\<close>) is \<open>None\<close> or the
  list of selected fields (a single number being the list of that number), \<open>channels\<close>
  \<open>None\<close> or one boolean per channel, \<open>baselines\<close> \<open>None\<close> or the selected antenna
  pairs. The uv coordinates and the antenna names, which \<open>readdata\<close> passes on, are left out
  of the result.
\<close>

type_synonym cfl = "complex option"

text \<open>\<open>data * np.logical_not(flags)\<close>: a flagged value is multiplied by zero (\<open>NaN\<close> stays).\<close>

definition c_weight :: "cfl \<Rightarrow> bool \<Rightarrow> cfl" where
  "c_weight d f = map_option (\<lambda>z. if f then 0 else z) d"

fun c_add :: "cfl \<Rightarrow> cfl \<Rightarrow> cfl" where
  "c_add (Some a) (Some b) = Some (a + b)"
| "c_add _ _ = None"

fun c_sub :: "cfl \<Rightarrow> cfl \<Rightarrow> cfl" where
  "c_sub (Some a) (Some b) = Some (a - b)"
| "c_sub _ _ = None"

definition c_div :: "cfl \<Rightarrow> nat \<Rightarrow> cfl" where
  "c_div x n = (if n = 0 then None else map_option (\<lambda>z. z / of_nat n) x)"

text \<open>
  Lines 428-453 for one row and channel: \<open>ps\<close> and \<open>fs\<close> are the values and flags of the
  polarisations, of which the first and the last are used. The result is the Stokes value
  and its flag.
\<close>

definition stokes :: "string \<Rightarrow> cfl list \<Rightarrow> bool list \<Rightarrow> cfl \<times> bool" where
  "stokes pol ps fs =
     (let stflags = (if hd fs then 0 else 1) + (if last fs then 0 else (1::nat))
      in if pol = ''i''
         then (c_div (c_add (c_weight (hd ps) (hd fs)) (c_weight (last ps) (last fs))) stflags,
               stflags < 1)
         else (c_div (c_sub (c_weight (hd ps) (hd fs)) (c_weight (last ps) (last fs))) stflags,
               stflags < 2))"

text \<open>\<open>flags[sel] = True\<close> and \<open>flags[sel, :] = True\<close> for a boolean row selection.\<close>

definition flag_rows :: "bool list \<Rightarrow> bool list list \<Rightarrow> bool list list" where
  "flag_rows sel flags = map (\<lambda>(s, row). if s then map (\<lambda>f. True) row else row) (zip sel flags)"

text \<open>
  The columns of a Measurement Set are rectangular and of one length; anything else is
  answered as the index error numpy would raise somewhere on the way.
\<close>

definition ms_shapes_ok ::
  "cfl list list list \<Rightarrow> bool list list list \<Rightarrow> int list \<Rightarrow> int list \<Rightarrow> int list \<Rightarrow>
   int list option \<Rightarrow> bool list option \<Rightarrow> bool" where
  "ms_shapes_ok data flags field antenna1 antenna2 fieldsel channels =
     (list_all2 (list_all2 (\<lambda>ps fs. ps \<noteq> [] \<and> length ps = length fs)) data flags
      \<and> length antenna1 = length data \<and> length antenna2 = length data
      \<and> (case fieldsel of None \<Rightarrow> True | Some fl \<Rightarrow> length field = length data)
      \<and> (case channels of None \<Rightarrow> True | Some ch \<Rightarrow> list_all (\<lambda>row. length row = length ch) data))"

text \<open>The steps of \<open>readdata\<close>, in the order of the source.\<close>

definition stokes_all :: "string \<Rightarrow> cfl list list list \<Rightarrow> bool list list list \<Rightarrow> (cfl \<times> bool) list list" where
  "stokes_all pol data flags =
     map (\<lambda>(drow, frow). map (\<lambda>(ps, fs). stokes pol ps fs) (zip drow frow)) (zip data flags)"

text \<open>Lines 465-475: \<open>flags[np.logical_not(select), :] = True\<close>.\<close>

definition flag_fields :: "int list option \<Rightarrow> int list \<Rightarrow> bool list list \<Rightarrow> bool list list" where
  "flag_fields fieldsel field flags =
     (case fieldsel of
        None \<Rightarrow> flags
      | Some fl \<Rightarrow> flag_rows (map (\<lambda>f. f \<notin> set fl) field) flags)"

text \<open>Lines 483-484: \<open>flags[antenna1 == antenna2] = True\<close>, under no condition.\<close>

definition flag_autocorrelations :: "int list \<Rightarrow> int list \<Rightarrow> bool list list \<Rightarrow> bool list list" where
  "flag_autocorrelations antenna1 antenna2 flags =
     flag_rows (map (\<lambda>(a, b). a = b) (zip antenna1 antenna2)) flags"

text \<open>Lines 487-489: \<open>flags[:, np.logical_not(channels)] = True\<close>.\<close>

definition flag_channels :: "bool list option \<Rightarrow> bool list list \<Rightarrow> bool list list" where
  "flag_channels channels flags =
     (case channels of
        None \<Rightarrow> flags
      | Some ch \<Rightarrow> map (\<lambda>row. map (\<lambda>(f, c). f \<or> \<not> c) (zip row ch)) flags)"

text \<open>
  Lines 492-503: the rows whose antenna pair is in \<open>baselines\<close> in neither order.
  \<open>select_baselines\<close> is the assignment; \<open>flag_baselines\<close> adds the case in which the
  selection cannot be evaluated: \<open>np.array(baselines)\<close> of an empty list has one dimension,
  and \<open>np.array(baselines)[:, 0]\<close>, which the comprehension evaluates for the first row,
  raises \<open>IndexError\<close>. Without rows it is not evaluated at all.
\<close>

definition select_baselines ::
  "(int \<times> int) list option \<Rightarrow> int list \<Rightarrow> int list \<Rightarrow> bool list list \<Rightarrow> bool list list" where
  "select_baselines baselines antenna1 antenna2 flags =
     (case baselines of
        None \<Rightarrow> flags
      | Some bl \<Rightarrow>
          flag_rows (map (\<lambda>p. \<not> (p \<in> set bl \<or> p \<in> set (map prod.swap bl)))
                       (zip antenna1 antenna2)) flags)"

definition flag_baselines ::
  "(int \<times> int) list option \<Rightarrow> int list \<Rightarrow> int list \<Rightarrow> bool list list \<Rightarrow> error + bool list list" where
  "flag_baselines baselines antenna1 antenna2 flags =
     (if baselines = Some [] \<and> zip antenna1 antenna2 \<noteq> [] then Inl IndexError
      else Inr (select_baselines baselines antenna1 antenna2 flags))"

text \<open>Lines 505-507: \<open>data[flags] = np.nan\<close>.\<close>

definition blank_flagged :: "cfl list list \<Rightarrow> bool list list \<Rightarrow> cfl list list" where
  "blank_flagged data flags =
     map (\<lambda>(drow, frow). map (\<lambda>(d, f). if f then None else d) (zip drow frow)) (zip data flags)"

definition readdata ::
  "cfl list list list \<Rightarrow> bool list list list \<Rightarrow> int list \<Rightarrow> int list \<Rightarrow> int list \<Rightarrow>
   int list option \<Rightarrow> bool list option \<Rightarrow> (int \<times> int) list option \<Rightarrow> string \<Rightarrow>
   error + (cfl list list \<times> bool list list)" where
  "readdata data flags field antenna1 antenna2 fieldsel channels baselines pol =
     (if \<not> ms_shapes_ok data flags field antenna1 antenna2 fieldsel channels then Inl IndexError
      else if \<not> (pol = ''i'' \<or> pol = ''q'') then Inl TypeError
      else
        let st = stokes_all pol data flags;
            data1 = map (map fst) st;
            flags0 = map (map snd) st;
            flags1 = flag_fields fieldsel field flags0;
            flags2 = flag_autocorrelations antenna1 antenna2 flags1;
            flags3 = flag_channels channels flags2
        in case flag_baselines baselines antenna1 antenna2 flags3 of
             Inl e \<Rightarrow> Inl e
           | Inr flags4 \<Rightarrow> Inr (blank_flagged data1 flags4, flags4))"

text \<open>
  Lines 829-851 of \<open>phazer\<close>: the rows flagged in every channel, and the samples that the
  grid cell with corner \<open>(uu, vv)\<close> averages.
\<close>

definition collaflags_of :: "bool list list \<Rightarrow> bool list" where
  "collaflags_of flags = map (list_all id) flags"

definition grid_active_visibs ::
  "real list \<Rightarrow> real list \<Rightarrow> bool list \<Rightarrow> real \<Rightarrow> real option \<Rightarrow> real \<Rightarrow> real \<Rightarrow> real \<Rightarrow> bool list" where
  "grid_active_visibs u v collaflags uvmin uvmax duv uu vv =
     map (\<lambda>(uk, vk, cf).
            (if cf then False
             else uu < uk \<and> uk \<le> uu + duv \<and> vv < vk \<and> vk \<le> vv + duv
                  \<and> (case uvmax of None \<Rightarrow> True | Some m \<Rightarrow> uk * uk + vk * vk < m * m)
                  \<and> uvmin * uvmin < uk * uk + vk * vk))
       (zip u (zip v collaflags))"

section \<open>phazer: the gridding\<close>

text \<open>
  Lines 768-880. \<open>u\<close> and \<open>v\<close> are the columns of \<open>uv\<close>, \<open>duv\<close> is the cell size of
  line 770, the reciprocal of \<open>imsize * cell * pi / (3600 * 180)\<close>, hence a number other
  than zero. The grid runs from the floor of the least to the ceiling of the greatest
  coordinate (from \<open>-uvmax\<close> to \<open>uvmax\<close> when \<open>uvmax\<close> is given) in steps of \<open>duv\<close>;
  \<open>u.min()\<close> of an empty column raises. \<open>np.arange\<close> holds
  \<open>ceil((stop - start) / step)\<close> values \<open>start + k * step\<close>.
\<close>

definition np_arange :: "real \<Rightarrow> real \<Rightarrow> real \<Rightarrow> real list" where
  "np_arange start stop step =
     map (\<lambda>k. start + real k * step) [0..<nat \<lceil>(stop - start) / step\<rceil>]"

text \<open>
  Line 862, \<open>np.nanmean(np.abs(np.nansum(data[active_visibs], axis=0)))\<close>: for each
  channel the sum over the rows of the cell, \<open>NaN\<close> counting as zero, then its modulus,
  then the mean over the channels.
\<close>

definition scalar_average :: "numlib \<Rightarrow> cfl list list \<Rightarrow> fl" where
  "scalar_average lib rows =
     nanmean lib
       (map (\<lambda>col. Some (cmod (sum_list (map (\<lambda>z. case z of None \<Rightarrow> 0 | Some c \<Rightarrow> c) col))))
          (transpose rows))"

text \<open>
  Lines 830-876, the body of the loop for the cell with corner \<open>(uu, vv)\<close>: the rows of a
  cell that has any are given the centre of the cell as their grid position and the
  scalar average of the cell as their value. A row of no cell keeps what \<open>nmdata\<close> and
  \<open>gruvcoord\<close> were initialised with.
\<close>

definition grid_cell ::
  "numlib \<Rightarrow> cfl list list \<Rightarrow> bool list \<Rightarrow> real list \<Rightarrow> real list \<Rightarrow> real \<Rightarrow> real option \<Rightarrow> real \<Rightarrow>
   real \<times> real \<Rightarrow> fl list \<times> (real \<times> real) list \<Rightarrow> fl list \<times> (real \<times> real) list" where
  "grid_cell lib data collaflags u v uvmin uvmax duv cell st =
     (let active = grid_active_visibs u v collaflags uvmin uvmax duv (fst cell) (snd cell)
      in if list_ex id active
         then (let scav = scalar_average lib (map fst (filter snd (zip data active)))
               in (map (\<lambda>(x, a). if a then scav else x) (zip (fst st) active),
                   map (\<lambda>(c, a). if a then (fst cell + duv / 2, snd cell + duv / 2) else c)
                     (zip (snd st) active)))
         else st)"

text \<open>
  Lines 772-880: \<open>nmdata\<close> and \<open>gruvcoord\<close> start as zeros (lines 808-815) and the loop
  over the cells fills them. The result is the pair \<open>(nmdata, gruvcoord)\<close> that line 880
  and the clip take as \<open>data\<close> and as grid positions. Columns of different lengths are
  answered as the index error of the boolean index.
\<close>

definition phazer_grid ::
  "numlib \<Rightarrow> cfl list list \<Rightarrow> bool list list \<Rightarrow> real list \<Rightarrow> real list \<Rightarrow> real \<Rightarrow> real option \<Rightarrow> real \<Rightarrow>
   error + (fl list \<times> (real \<times> real) list)" where
  "phazer_grid lib data flags u v uvmin uvmax duv =
     (if u = [] \<or> v = [] then Inl ValueError
      else if length u \<noteq> length data \<or> length v \<noteq> length data \<or> length flags \<noteq> length data
      then Inl IndexError
      else
        let umin = (case uvmax of None \<Rightarrow> Min (set u) | Some m \<Rightarrow> - m);
            umax = (case uvmax of None \<Rightarrow> Max (set u) | Some m \<Rightarrow> m);
            vmin = (case uvmax of None \<Rightarrow> Min (set v) | Some m \<Rightarrow> - m);
            vmax = (case uvmax of None \<Rightarrow> Max (set v) | Some m \<Rightarrow> m);
            ugrid = np_arange (of_int \<lfloor>umin\<rfloor>) (of_int \<lceil>umax\<rceil>) duv;
            vgrid = np_arange (of_int \<lfloor>vmin\<rfloor>) (of_int \<lceil>vmax\<rceil>) duv;
            nmdata = replicate (length data) (Some 0);
            gruvcoord = replicate (length data) (0, 0);
            collaflags = collaflags_of flags
        in Inr (fold (grid_cell lib data collaflags u v uvmin uvmax duv)
                  (concat (map (\<lambda>uu. map (\<lambda>vv. (uu, vv)) vgrid) ugrid))
                  (nmdata, gruvcoord)))"

text \<open>
  Lines 657-1032 for one input set, with \<open>vampirisms\<close> and \<open>flagonlyday\<close> off, no plot
  (\<open>show = None\<close>) and no wedge (\<open>radrange = 0\<close>): \<open>readdata\<close>, the gridding, the clip
  in the chosen mode. The result is \<open>newflags\<close>, one flag per row.
\<close>

definition phazer_newflags ::
  "numlib \<Rightarrow> cfl list list list \<Rightarrow> bool list list list \<Rightarrow> int list \<Rightarrow> int list \<Rightarrow> int list \<Rightarrow>
   real list \<Rightarrow> real list \<Rightarrow> int list option \<Rightarrow> bool list option \<Rightarrow> (int \<times> int) list option \<Rightarrow>
   string \<Rightarrow> real \<Rightarrow> real option \<Rightarrow> real \<Rightarrow> string \<Rightarrow> string \<Rightarrow> real \<Rightarrow> error + bool list" where
  "phazer_newflags lib data flags field antenna1 antenna2 u v fieldsel channels baselines pol
       uvmin uvmax duv mode threshmode threshold =
     (case readdata data flags field antenna1 antenna2 fieldsel channels baselines pol of
        Inl e \<Rightarrow> Inl e
      | Inr (d, f) \<Rightarrow>
          (case phazer_grid lib d f u v uvmin uvmax duv of
             Inl e \<Rightarrow> Inl e
           | Inr (nmdata, gruvcoord) \<Rightarrow>
               map_sum id fst
                 (phazer_clip lib nmdata gruvcoord antenna1 antenna2 None mode threshmode
                    threshold None)))"

section \<open>vampirisms\<close>

text \<open>
  Lines 1317-1332: the time stamps in days, the start and the end of the observation (half
  a sample interval before the first and after the last time stamp), all on pyephem's
  scale (\<open>astropy_to_pyephemtime\<close>, line 1184). \<open>np.amin\<close> of an empty column and
  \<open>INTERVAL[0]\<close> of an empty column raise.
\<close>

definition astropy_to_pyephemtime :: "real \<Rightarrow> real" where
  "astropy_to_pyephemtime mjd = mjd - 15019.5"

definition observation_span :: "real list \<Rightarrow> real list \<Rightarrow> error + (real list \<times> real \<times> real)" where
  "observation_span time_col interval_col =
     (let dd = map (\<lambda>t. t / (24 * 3600)) time_col
      in if dd = [] then Inl ValueError
         else if interval_col = [] then Inl IndexError
         else
           let mindd = Min (set dd) - hd interval_col / (2 * 24 * 3600);
               maxdd = Max (set dd) + last interval_col / (2 * 24 * 3600)
           in Inr (map astropy_to_pyephemtime dd,
                   astropy_to_pyephemtime mindd, astropy_to_pyephemtime maxdd))"

text \<open>
  pyephem's \<open>next_rising\<close> and \<open>next_setting\<close> of the sun, for the observer at a date, are
  the functions \<open>rising\<close> and \<open>setting\<close> of the date. Lines 1343-1368: where the walk
  starts.
\<close>

definition first_daylight :: "(real \<Rightarrow> real) \<Rightarrow> (real \<Rightarrow> real) \<Rightarrow> real \<Rightarrow> real" where
  "first_daylight rising setting eobstart =
     (let esti = rising eobstart;
          eeti = setting eobstart
      in if eeti < esti then eobstart else rising eobstart)"

text \<open>\<open>flags + (etimes >= lo) * (hi >= etimes)\<close>: the union with a closed window.\<close>

definition add_window :: "bool list \<Rightarrow> real list \<Rightarrow> real \<Rightarrow> real \<Rightarrow> bool list" where
  "add_window flags etimes lo hi = map (\<lambda>(f, t). f \<or> (lo \<le> t \<and> t \<le> hi)) (zip flags etimes)"

text \<open>
  Lines 1372-1439, the loop over the daylight periods. It ends when a rising, less the
  margin before sunrise, is no longer before the end of the observation; whether it ends
  depends on the ephemeris, so the loop is a partial function.
\<close>

partial_function (option) sun_walk ::
  "(real \<Rightarrow> real) \<Rightarrow> (real \<Rightarrow> real) \<Rightarrow> bool \<Rightarrow> real \<Rightarrow> real \<Rightarrow> real \<Rightarrow> real \<Rightarrow> real \<Rightarrow> real list \<Rightarrow>
   real \<Rightarrow> bool list \<Rightarrow> bool list option" where
  "sun_walk rising setting nononsoleil avantsoleil apresnuit avantnuit apresoleil eobsend etimes
     esti flags =
     (if esti - avantsoleil < eobsend
      then
        let eeti = setting esti;
            flags' =
              (if nononsoleil
               then add_window flags etimes (esti - avantsoleil) (eeti + apresoleil)
               else add_window
                      (add_window flags etimes (esti - avantsoleil) (esti + apresnuit))
                      etimes (eeti - avantnuit) (eeti + apresoleil))
        in sun_walk rising setting nononsoleil avantsoleil apresnuit avantnuit apresoleil eobsend
             etimes (rising eeti) flags'
      else Some flags)"

text \<open>
  The flags \<open>vampirisms\<close> returns (lines 1317-1479); the margins are in days. \<open>None\<close> is a
  walk that does not end.
\<close>

definition vampirisms_flags ::
  "(real \<Rightarrow> real) \<Rightarrow> (real \<Rightarrow> real) \<Rightarrow> real list \<Rightarrow> real list \<Rightarrow> real \<Rightarrow> real \<Rightarrow> real \<Rightarrow> real \<Rightarrow>
   bool \<Rightarrow> bool \<Rightarrow> (error + bool list) option" where
  "vampirisms_flags rising setting time_col interval_col avantsoleil apresnuit avantnuit apresoleil
     nononsoleil flinvert =
     (case observation_span time_col interval_col of
        Inl e \<Rightarrow> Some (Inl e)
      | Inr (etimes, eobstart, eobsend) \<Rightarrow>
          map_option (\<lambda>flags. Inr (if flinvert then map Not flags else flags))
            (sun_walk rising setting nononsoleil avantsoleil apresnuit avantnuit apresoleil
               eobsend etimes (first_daylight rising setting eobstart)
               (replicate (length etimes) False)))"

text \<open>The rising that starts the \<open>k\<close>-th daylight period of the walk.\<close>

definition walked_rising :: "(real \<Rightarrow> real) \<Rightarrow> (real \<Rightarrow> real) \<Rightarrow> real \<Rightarrow> nat \<Rightarrow> real" where
  "walked_rising rising setting esti k = ((\<lambda>e. rising (setting e)) ^^ k) esti"

text \<open>
  An ephemeris to evaluate the walk on: the sun rises at a quarter and sets at three
  quarters of every day (dates in days).
\<close>

definition equinox_rising :: "real \<Rightarrow> real" where
  "equinox_rising date = of_int \<lfloor>date + 3 / 4\<rfloor> + 1 / 4"

definition equinox_setting :: "real \<Rightarrow> real" where
  "equinox_setting date = of_int \<lfloor>date + 1 / 4\<rfloor> + 3 / 4"

section \<open>The tables on disk\<close>

text \<open>
  What \<open>phazer\<close> and \<open>vampirisms\<close> do to the data sets: the \<open>FLAG\<close> column of every table
  that exists (by name; rows, channels, polarisations) and the trace of the table
  operations made. \<open>flagging\<close> stands for the computation of the new flags from what was
  read (lines 654-1131 of \<open>phazer\<close>, lines 1291-1479 of \<open>vampirisms\<close>), which reads
  columns and writes nothing; it may raise.
\<close>

datatype io_event =
    Open_table string bool
  | Copy_table string string
  | Get_col string string
  | Put_col string string
  | Close_table string

record ms_store =
  flag_cols :: "string \<rightharpoonup> bool list list list"
  io_trace :: "io_event list"

datatype table_error = Table_missing | Flagging_raised error | Bad_index | Raised_string

text \<open>An event that opens a table for writing, creates one or writes a column.\<close>

fun is_write :: "io_event \<Rightarrow> bool" where
  "is_write (Open_table name readonly) = (\<not> readonly)"
| "is_write (Copy_table src dst) = True"
| "is_write (Put_col name col) = True"
| "is_write (Get_col name col) = False"
| "is_write (Close_table name) = False"

definition log_io :: "io_event list \<Rightarrow> ms_store \<Rightarrow> ms_store" where
  "log_io evs st = st\<lparr>io_trace := io_trace st @ evs\<rparr>"

text \<open>\<open>flags[sel, :, :] = True\<close> on a \<open>FLAG\<close> column.\<close>

definition flag_selected :: "bool list \<Rightarrow> bool list list list \<Rightarrow> bool list list list" where
  "flag_selected sel col =
     map (\<lambda>(s, row). if s then map (map (\<lambda>f. True)) row else row) (zip sel col)"

text \<open>
  Lines 651-752 of \<open>phazer\<close>, as far as the tables go: every input set is opened read-only
  (\<open>opensilent\<close> with its default), read by \<open>readdata\<close> and closed.
\<close>

fun phazer_read :: "string \<Rightarrow> string list \<Rightarrow> ms_store \<Rightarrow> table_error option \<times> ms_store" where
  "phazer_read col [] st = (None, st)"
| "phazer_read col (name # inset) st =
     (if name \<notin> dom (flag_cols st) then (Some Table_missing, st)
      else phazer_read col inset
             (log_io [Open_table name True, Get_col name col, Get_col name ''FLAG'',
                      Get_col name ''UVW'', Get_col name ''ANTENNA1'', Get_col name ''ANTENNA2'',
                      Close_table name] st))"

text \<open>
  Lines 1144-1179, one output set: \<open>i\<close> is the index, \<open>nrows\<close> the row boundaries of the
  input sets in \<open>newflags\<close>.
\<close>

definition phazer_apply_one ::
  "bool \<Rightarrow> string list \<Rightarrow> string list \<Rightarrow> bool list \<Rightarrow> nat list \<Rightarrow> nat \<Rightarrow> ms_store \<Rightarrow>
   table_error option \<times> ms_store" where
  "phazer_apply_one dryrun inset outset newflags nrows i st =
     (let out = outset ! i;
          st1 =
            (if out \<in> dom (flag_cols st)
             then (if \<not> dryrun then Inr (log_io [Open_table out False] st) else Inr st)
             else
               (if \<not> dryrun
                then (case flag_cols st (inset ! i) of
                        None \<Rightarrow> Inl Table_missing
                      | Some c \<Rightarrow>
                          Inr (log_io [Open_table (inset ! i) True, Copy_table (inset ! i) out,
                                       Close_table out, Close_table (inset ! i),
                                       Open_table out False]
                                 (st\<lparr>flag_cols := (flag_cols st)(out \<mapsto> c)\<rparr>)))
                else Inr st))
      in case st1 of
           Inl e \<Rightarrow> (Some e, st)
         | Inr st2 \<Rightarrow>
             if \<not> dryrun
             then (case flag_cols st2 out of
                     None \<Rightarrow> (Some Table_missing, st2)
                   | Some flags \<Rightarrow>
                       let st3 = log_io [Get_col out ''FLAG''] st2
                       in if \<not> Suc i < length nrows then (Some Bad_index, st3)
                          else
                            let sel = take (nrows ! Suc i - nrows ! i) (drop (nrows ! i) newflags)
                            in if length sel \<noteq> length flags then (Some Bad_index, st3)
                               else (None,
                                     log_io [Put_col out ''FLAG'', Close_table out]
                                       (st3\<lparr>flag_cols :=
                                              (flag_cols st3)(out \<mapsto> flag_selected sel flags)\<rparr>)))
             else (None, st2))"

fun phazer_apply_loop ::
  "bool \<Rightarrow> string list \<Rightarrow> string list \<Rightarrow> bool list \<Rightarrow> nat list \<Rightarrow> nat list \<Rightarrow> ms_store \<Rightarrow>
   table_error option \<times> ms_store" where
  "phazer_apply_loop dryrun inset outset newflags nrows [] st = (None, st)"
| "phazer_apply_loop dryrun inset outset newflags nrows (i # rest) st =
     (case phazer_apply_one dryrun inset outset newflags nrows i st of
        (Some e, st') \<Rightarrow> (Some e, st')
      | (None, st') \<Rightarrow> phazer_apply_loop dryrun inset outset newflags nrows rest st')"

text \<open>
  Lines 1133-1181. \<open>outset\<close> is \<open>None\<close> or the list of output names (a single name being
  the list of that name); a list of another length than \<open>inset\<close> makes the source raise
  a string, which is itself an error.
\<close>

definition phazer_apply ::
  "bool \<Rightarrow> string list \<Rightarrow> string list option \<Rightarrow> bool list \<Rightarrow> nat list \<Rightarrow> ms_store \<Rightarrow>
   table_error option \<times> ms_store" where
  "phazer_apply dryrun inset outset newflags nrows st =
     (case outset of
        None \<Rightarrow> phazer_apply_loop dryrun inset inset newflags nrows [0..<length inset] st
      | Some out \<Rightarrow>
          if length out \<noteq> length inset then (Some Raised_string, st)
          else phazer_apply_loop dryrun inset out newflags nrows [0..<length out] st)"

definition phazer_io ::
  "(ms_store \<Rightarrow> error + bool list \<times> nat list) \<Rightarrow> string \<Rightarrow> string list \<Rightarrow> string list option \<Rightarrow>
   bool \<Rightarrow> ms_store \<Rightarrow> table_error option \<times> ms_store" where
  "phazer_io flagging col inset outset dryrun st =
     (case phazer_read col inset st of
        (Some e, st1) \<Rightarrow> (Some e, st1)
      | (None, st1) \<Rightarrow>
          (case flagging st1 of
             Inl e \<Rightarrow> (Some (Flagging_raised e), st1)
           | Inr (newflags, nrows) \<Rightarrow> phazer_apply dryrun inset outset newflags nrows st1))"

text \<open>
  \<open>vampirisms\<close> on a data set given by name: lines 1286-1289 open it read-only in a dry
  run and for writing otherwise, lines 1291-1332 read, lines 1482-1486 write.
\<close>

definition vampirisms_io ::
  "(ms_store \<Rightarrow> error + bool list) \<Rightarrow> string \<Rightarrow> bool \<Rightarrow> ms_store \<Rightarrow> table_error option \<times> ms_store" where
  "vampirisms_io flagging inset dryrun st =
     (case flag_cols st inset of
        None \<Rightarrow> (Some Table_missing, st)
      | Some oflags \<Rightarrow>
          let st1 = log_io [Open_table inset dryrun, Get_col inset ''POSITION'',
                            Get_col inset ''TIME'', Get_col inset ''INTERVAL''] st
          in (case flagging st1 of
                Inl e \<Rightarrow> (Some (Flagging_raised e), st1)
              | Inr flags \<Rightarrow>
                  if \<not> dryrun
                  then
                    let st2 = log_io [Get_col inset ''FLAG''] st1
                    in if length flags \<noteq> length oflags then (Some Bad_index, st2)
                       else (None,
                             log_io [Put_col inset ''FLAG'']
                               (st2\<lparr>flag_cols :=
                                      (flag_cols st2)(inset \<mapsto> flag_selected flags oflags)\<rparr>))
                  else (None, st1)))"

section \<open>Properties of histoclip\<close>

lemma fl_eq_nan: "fl_eq x None = False"
  by (cases x) simp_all

text \<open>
  C3. With fewer than three finite grid values, \<open>histoclip\<close> returns the all-false mask of
  the data's length, for every policy string, with or without a plot axis, and leaves the
  axis as it was.
\<close>

theorem histoclip_insufficient_data:
  assumes "length msk = length data" and "length gruvcoord = length data"
    and "length (filter isfinite (uvgrid data msk gruvcoord)) < 3"
  shows "histoclip lib data msk gruvcoord unflags threshmode threshold ax title =
           Inr (replicate (length data) False, ax)"
  using assms by (simp add: histoclip_def Let_def)

lemmas grid_defs = uvgrid_def np_unique_def cell_value_def active_visibs_def Let_def

lemmas stat_defs = median_def np_nanmedian_def np_nanmean_def np_nanstd_def astropy_mad_std_def
  finite_values_def isfinite_def

lemmas clip_defs = astropy_sigma_clip_def clip_once_def sigma_clip_loop.simps

lemma robust_stats_not_noflags: "robust_stats lib u n tm th w \<noteq> Inr None"
  by (simp add: robust_stats_def Let_def fl_eq_nan split: sum.splits prod.splits)

lemma clip_select_total:
  assumes "\<forall>u. unflags = Some u \<longrightarrow> length u = length av"
  shows "\<exists>m. clip_select av ave std th unflags = Inr m"
  using assms by (cases unflags) (simp_all add: clip_select_def Let_def)

lemma clip_select_nth:
  assumes "clip_select av ave std th unflags = Inr m"
  shows "length m = length av \<and>
         (\<forall>i<length av. m ! i = (fl_ge (av ! i) (fl_add ave (fl_mul (Some th) std))
                                   \<and> (\<forall>u. unflags = Some u \<longrightarrow> \<not> u ! i)))"
  using assms
  by (cases unflags) (auto simp add: clip_select_def Let_def split: if_splits)

lemma histoclip_unfold:
  assumes "length msk = length data" and "length gruvcoord = length data"
    and "3 \<le> length (filter isfinite (uvgrid data msk gruvcoord))"
    and "robust_stats lib (uvgrid data msk gruvcoord)
           (length (filter isfinite (uvgrid data msk gruvcoord))) tm th (ax \<noteq> None)
         = Inr (Some (fit, ave, std))"
  shows "histoclip lib data msk gruvcoord unflags tm th ax title =
           (case clip_select data ave std th unflags of
              Inl e \<Rightarrow> Inl e
            | Inr select \<Rightarrow>
                (case ax of
                   None \<Rightarrow> Inr (select, None)
                 | Some a \<Rightarrow>
                     (case fit of
                        None \<Rightarrow> Inl (UnboundLocalError ''bin_centers'')
                      | Some (bin_centers, widthes, popt) \<Rightarrow>
                          (case render_hist a title (uvgrid data msk gruvcoord)
                                  (sigma_clip lib th (uvgrid data msk gruvcoord))
                                  (length (filter isfinite
                                     (sigma_clip lib th (uvgrid data msk gruvcoord))))
                                  bin_centers widthes
                                  (nanmean lib (sigma_clip lib th (uvgrid data msk gruvcoord)))
                                  (nanstd lib (sigma_clip lib th (uvgrid data msk gruvcoord)))
                                  th of
                             Inl e \<Rightarrow> Inl e
                           | Inr a' \<Rightarrow> Inr (select, Some a')))))"
  using assms by (simp add: histoclip_def Let_def)

text \<open>
  C1. Let the estimator return location \<open>ave\<close> and scale \<open>std\<close> on a grid of at least three
  finite values. Then every mask that \<open>histoclip\<close> returns has the data's length and flags
  sample \<open>i\<close> exactly when \<open>data[i] >= ave + threshold * std\<close> and \<open>unflags\<close>, if given,
  is false at \<open>i\<close>; and without a plot axis the call does return a mask.
\<close>

theorem histoclip_clip_mask:
  assumes "length msk = length data" and "length gruvcoord = length data"
    and "\<forall>u. unflags = Some u \<longrightarrow> length u = length data"
    and "3 \<le> length (filter isfinite (uvgrid data msk gruvcoord))"
    and "robust_stats lib (uvgrid data msk gruvcoord)
           (length (filter isfinite (uvgrid data msk gruvcoord))) threshmode threshold (ax \<noteq> None)
         = Inr (Some (fit, ave, std))"
  shows "(ax = None \<longrightarrow>
            (\<exists>m. histoclip lib data msk gruvcoord unflags threshmode threshold ax title = Inr (m, None)))
       \<and> (\<forall>m ax'. histoclip lib data msk gruvcoord unflags threshmode threshold ax title = Inr (m, ax') \<longrightarrow>
             length m = length data \<and>
             (\<forall>i<length data.
                m ! i = (fl_ge (data ! i) (fl_add ave (fl_mul (Some threshold) std))
                         \<and> (\<forall>u. unflags = Some u \<longrightarrow> \<not> u ! i))))"
proof -
  obtain sel where sel: "clip_select data ave std threshold unflags = Inr sel"
    using clip_select_total [OF assms(3)] by blast
  note nth = clip_select_nth [OF sel]
  note unf = histoclip_unfold [OF assms(1,2,4,5), of unflags title]
  have a: "\<exists>m. histoclip lib data msk gruvcoord unflags threshmode threshold ax title = Inr (m, None)"
    if "ax = None"
    using unf sel that by simp
  have b: "histoclip lib data msk gruvcoord unflags threshmode threshold ax title = Inr (m, ax') \<Longrightarrow> m = sel"
    for m ax'
    using unf sel by (auto split: option.splits prod.splits sum.splits)
  show ?thesis using a b nth by blast
qed

lemma uvgrid_row6:
  "uvgrid [Some 1, Some 3, Some 1, Some 3, Some 100, Some 100]
      [False, False, False, False, False, False]
      [(1, 0), (2, 0), (3, 0), (4, 0), (5, 0), (6, 0)]
   = [Some 1, Some 3, Some 1, Some 3, Some 100, Some 100]"
  by (simp add: grid_defs)

lemma clip_row6:
  "astropy_sigma_clip 5 [Some 1, Some 3, Some 1, Some 3, Some 100, Some 100]
     = [Some 1, Some 3, Some 1, Some 3]"
  by (simp add: clip_defs stat_defs Let_def)

lemma rs6:
  "robust_stats (numpy_astropy fit_fails) [Some 1, Some 3, Some 1, Some 3, Some 100, Some 100] n
     ''std'' 5 False = Inr (Some (None, Some 2, Some 1))"
  by (simp add: robust_stats_def numpy_astropy_def clip_row6 choose_stats_def stat_defs Let_def)

theorem histoclip_clip_mask_witness:
  "histoclip (numpy_astropy fit_fails) [Some 1, Some 3, Some 1, Some 3, Some 100, Some 100]
     [False, False, False, False, False, False] [(1, 0), (2, 0), (3, 0), (4, 0), (5, 0), (6, 0)]
     (Some [False, False, False, False, False, True]) ''std'' 5 None ''''
   = Inr ([False, False, False, False, True, False], None)"
proof -
  let ?d = "[Some 1, Some 3, Some 1, Some 3, Some 100, Some (100::real)]"
  let ?k = "[False, False, False, False, False, False]"
  let ?g = "[(1, 0), (2, 0), (3, 0), (4, 0), (5, 0), (6::real, 0::real)]"
  let ?u = "Some [False, False, False, False, False, True]"
  have rs: "robust_stats (numpy_astropy fit_fails) (uvgrid ?d ?k ?g)
              (length (filter isfinite (uvgrid ?d ?k ?g))) ''std'' 5 (None \<noteq> (None :: axes option))
            = Inr (Some (None, Some 2, Some 1))"
    by (simp add: uvgrid_row6 isfinite_def rs6)
  have n: "3 \<le> length (filter isfinite (uvgrid ?d ?k ?g))"
    by (simp add: uvgrid_row6 isfinite_def)
  have u: "\<forall>v. ?u = Some v \<longrightarrow> length v = length ?d" by simp
  obtain m where m: "histoclip (numpy_astropy fit_fails) ?d ?k ?g ?u ''std'' 5 None '''' = Inr (m, None)"
    using histoclip_clip_mask [OF _ _ u n rs, of "''''"] by auto
  have "length m = 6 \<and> (\<forall>i<6. m ! i = (fl_ge (?d ! i) (fl_add (Some 2) (fl_mul (Some 5) (Some 1)))
                         \<and> \<not> [False, False, False, False, False, True] ! i))"
    using histoclip_clip_mask [OF _ _ u n rs, of "''''"] m by simp
  then have "m = [False, False, False, False, True, False]"
    by (auto simp add: list_eq_iff_nth_eq less_Suc_eq eval_nat_numeral nth_Cons')
  with m show ?thesis by simp
qed

text \<open>An instance of C3: two grid values, policy \<open>fit\<close>, a plot axis.\<close>

theorem histoclip_insufficient_data_witness:
  "histoclip (numpy_astropy fit_fails) [Some 7, Some 9] [False, False] [(1, 0), (2, 0)] None ''fit'' 5 (Some []) ''''
   = Inr ([False, False], Some [])"
proof -
  have n: "length (filter isfinite (uvgrid [Some 7, Some 9] [False, False] [(1, 0), (2, 0)])) < 3"
    by (simp add: grid_defs isfinite_def)
  show ?thesis
    using histoclip_insufficient_data [OF _ _ n, of "numpy_astropy fit_fails" None "''fit''" 5 "Some []" "''''"]
    by (simp add: eval_nat_numeral)
qed

text \<open>The pair each policy string selects (lines 276-287).\<close>

lemma choose_stats_policies:
  "choose_stats ''abs'' average stdev med mad popt = Inr (Some 0, Some 1)"
  "choose_stats ''std'' average stdev med mad popt = Inr (average, stdev)"
  "choose_stats ''mad'' average stdev med mad popt = Inr (med, mad)"
  "choose_stats ''fit'' average stdev med mad (Some (cent, amp, sigma)) = Inr (cent, sigma)"
  "choose_stats ''fixed'' average stdev med mad popt = Inl (UnboundLocalError ''ave'')"
  by (simp_all add: choose_stats_def)

lemma robust_stats_fixed:
  "\<exists>e. robust_stats lib u n ''fixed'' th w = Inl e"
  "robust_stats lib u n ''fixed'' th False = Inl (UnboundLocalError ''ave'')"
  by (auto simp add: robust_stats_def Let_def fl_eq_nan choose_stats_policies split: sum.splits)

text \<open>
  C2. The policy string \<open>fixed\<close> of the docstring and of the command line binds neither
  \<open>ave\<close> nor \<open>std\<close> (the source tests for \<open>abs\<close>): on a grid of at least three finite
  values every call with \<open>threshmode = 'fixed'\<close> raises, and without a plot axis the
  exception is the \<open>UnboundLocalError\<close> of \<open>ave\<close> in line 291.
\<close>

theorem histoclip_fixed_unbound:
  assumes "length msk = length data" and "length gruvcoord = length data"
    and "3 \<le> length (filter isfinite (uvgrid data msk gruvcoord))"
  shows "(\<exists>e. histoclip lib data msk gruvcoord unflags ''fixed'' threshold ax title = Inl e)
       \<and> histoclip lib data msk gruvcoord unflags ''fixed'' threshold None title
           = Inl (UnboundLocalError ''ave'')"
proof -
  obtain e where "robust_stats lib (uvgrid data msk gruvcoord)
      (length (filter isfinite (uvgrid data msk gruvcoord))) ''fixed'' threshold (ax \<noteq> None) = Inl e"
    using robust_stats_fixed(1) by blast
  then have "histoclip lib data msk gruvcoord unflags ''fixed'' threshold ax title = Inl e"
    using assms by (simp add: histoclip_def Let_def)
  moreover have "histoclip lib data msk gruvcoord unflags ''fixed'' threshold None title
           = Inl (UnboundLocalError ''ave'')"
    using assms by (simp add: histoclip_def Let_def robust_stats_fixed(2))
  ultimately show ?thesis by blast
qed

theorem histoclip_fixed_unbound_witness:
  "histoclip (numpy_astropy fit_fails) [Some 1, Some 2, Some 3] [False, False, False]
     [(1, 0), (2, 0), (3, 0)] None ''fixed'' 5 None '''' = Inl (UnboundLocalError ''ave'')"
proof -
  have n: "3 \<le> length (filter isfinite (uvgrid [Some 1, Some 2, Some 3] [False, False, False]
     [(1, 0), (2, 0), (3, 0)]))"
    by (simp add: grid_defs isfinite_def)
  show ?thesis
    using histoclip_fixed_unbound [OF _ _ n, of "numpy_astropy fit_fails" None 5 None "''''"]
    by simp
qed

lemma isqrt_0: "isqrt 0 = 0"
  by (simp add: isqrt_def)

lemma fit_gaussian_one_bin:
  assumes "\<forall>xs n. length (fst (histogram lib xs n)) = n \<and> length (snd (histogram lib xs n)) = Suc n"
  shows "\<exists>bc w p. fit_gaussian lib c np 0 a s = Inr (bc, w, p) \<and> length bc = 1"
proof -
  obtain hist edges where h: "histogram lib (finite_values c) (Suc 0) = (hist, edges)"
    by fastforce
  have "length hist = 1" and "length edges = 2"
    using assms [rule_format, of "finite_values c" "Suc 0"] h by simp_all
  then obtain h0 e0 e1 where he: "hist = [h0]" "edges = [e0, e1]"
    by (auto simp add: length_Suc_conv eval_nat_numeral)
  show ?thesis
    by (cases "curve_fit lib [e0 + 0.5 * (e1 - e0)] [h0]
                 (Some (e0 + 0.5 * (e1 - e0)), Some (real h0), fl_div s (Some 2))")
       (auto simp add: fit_gaussian_def isqrt_0 h he argmax_first_def Let_def)
qed

lemma choose_stats_four:
  assumes "threshmode \<in> {''abs'', ''std'', ''mad'', ''fit''}"
  shows "\<exists>ave std. choose_stats threshmode average stdev med mad (Some p) = Inr (ave, std)"
  using assms by (cases p) (auto simp add: choose_stats_policies)

lemma choose_stats_three:
  assumes "threshmode \<in> {''abs'', ''std'', ''mad''}"
  shows "\<exists>ave std. choose_stats threshmode average stdev med mad None = Inr (ave, std)"
  using assms by (auto simp add: choose_stats_policies)

text \<open>
  C5. The drawing can keep \<open>histoclip\<close> from returning the mask it has computed. When the
  sigma clip leaves no finite grid value, the histogram has \<open>int(sqrt(0)) + 1 = 1\<close> bin
  (numpy returns as many counts as bins asked for and one edge more), and line 299 reads
  \<open>bin_centers[1]\<close>: with a plot axis the call raises \<open>IndexError\<close>, without one the
  same call returns a mask.
\<close>

theorem histoclip_render_blocks:
  assumes "length msk = length data" and "length gruvcoord = length data"
    and "\<forall>u. unflags = Some u \<longrightarrow> length u = length data"
    and "3 \<le> length (filter isfinite (uvgrid data msk gruvcoord))"
    and "filter isfinite (sigma_clip lib threshold (uvgrid data msk gruvcoord)) = []"
    and "\<forall>xs n. length (fst (histogram lib xs n)) = n \<and> length (snd (histogram lib xs n)) = Suc n"
    and "threshmode \<in> {''abs'', ''std'', ''mad'', ''fit''}"
  shows "histoclip lib data msk gruvcoord unflags threshmode threshold (Some a) title = Inl IndexError
       \<and> (\<exists>m. histoclip lib data msk gruvcoord unflags threshmode threshold None title = Inr (m, None))"
proof -
  let ?u = "uvgrid data msk gruvcoord"
  let ?n = "length (filter isfinite ?u)"
  let ?c = "sigma_clip lib threshold ?u"
  obtain bc w p where fg: "fit_gaussian lib ?c ?n 0 (nanmean lib ?c) (nanstd lib ?c) = Inr (bc, w, p)"
    and bc: "length bc = 1"
    using fit_gaussian_one_bin [OF assms(6)] by blast
  obtain ave std where cs: "choose_stats threshmode (nanmean lib ?c) (nanstd lib ?c)
       (nanmedian lib ?c) (mad_std lib ?c) (Some p) = Inr (ave, std)"
    using choose_stats_four [OF assms(7)] by blast
  have rs: "robust_stats lib ?u ?n threshmode threshold (Some a \<noteq> None) = Inr (Some (Some (bc, w, p), ave, std))"
    by (simp add: robust_stats_def Let_def fl_eq_nan assms(5) fg cs)
  obtain sel where sel: "clip_select data ave std threshold unflags = Inr sel"
    using clip_select_total [OF assms(3)] by blast
  have 1: "histoclip lib data msk gruvcoord unflags threshmode threshold (Some a) title = Inl IndexError"
    by (simp add: histoclip_unfold [OF assms(1,2,4) rs] sel render_hist_def bc)
  have "\<exists>fit ave std. robust_stats lib ?u ?n threshmode threshold (None \<noteq> (None :: axes option))
          = Inr (Some (fit, ave, std))"
  proof (cases "threshmode = ''fit''")
    case True
    then show ?thesis
      using cs by (simp add: robust_stats_def Let_def fl_eq_nan assms(5) fg)
  next
    case False
    then have "threshmode \<in> {''abs'', ''std'', ''mad''}" using assms(7) by auto
    from choose_stats_three [OF this] obtain ave' std' where
      "choose_stats threshmode (nanmean lib ?c) (nanstd lib ?c)
         (nanmedian lib ?c) (mad_std lib ?c) None = Inr (ave', std')" by blast
    with False show ?thesis
      by (simp add: robust_stats_def Let_def fl_eq_nan)
  qed
  then obtain fit' ave' std' where rs': "robust_stats lib ?u ?n threshmode threshold (None \<noteq> (None :: axes option))
          = Inr (Some (fit', ave', std'))" by blast
  obtain sel' where sel': "clip_select data ave' std' threshold unflags = Inr sel'"
    using clip_select_total [OF assms(3)] by blast
  have 2: "histoclip lib data msk gruvcoord unflags threshmode threshold None title = Inr (sel', None)"
    by (simp add: histoclip_unfold [OF assms(1,2,4) rs'] sel')
  from 1 2 show ?thesis by blast
qed

lemma uvgrid_row4:
  "uvgrid [Some 1, Some 2, Some 3, Some 4] [False, False, False, False]
      [(1, 0), (2, 0), (3, 0), (4, 0)]
   = [Some 1, Some 2, Some 3, Some 4]"
  by (simp add: grid_defs)

lemma clip_row4: "astropy_sigma_clip (1/10) [Some 1, Some 2, Some 3, Some 4] = []"
  by (simp add: clip_defs stat_defs Let_def)

lemma np_histogram_lengths:
  "\<forall>xs n. length (fst (np_histogram xs n)) = n \<and> length (snd (np_histogram xs n)) = Suc n"
  by (simp add: np_histogram_def Let_def)

text \<open>
  The instance: grid values 1, 2, 3, 4 and threshold 0.1. The clip keeps what lies within
  \<open>2.5 \<plusminus> 0.1 * 1.4826\<close>, that is nothing.
\<close>

theorem histoclip_render_blocks_witness:
  "histoclip (numpy_astropy fit_fails) [Some 1, Some 2, Some 3, Some 4] [False, False, False, False]
      [(1, 0), (2, 0), (3, 0), (4, 0)] None ''std'' (1/10) (Some []) '''' = Inl IndexError
   \<and> histoclip (numpy_astropy fit_fails) [Some 1, Some 2, Some 3, Some 4] [False, False, False, False]
      [(1, 0), (2, 0), (3, 0), (4, 0)] None ''std'' (1/10) None ''''
       = Inr ([False, False, False, False], None)"
proof -
  let ?d = "[Some 1, Some 2, Some 3, Some (4::real)]"
  let ?k = "[False, False, False, False]"
  let ?g = "[(1, 0), (2, 0), (3, 0), (4::real, 0::real)]"
  let ?L = "numpy_astropy fit_fails"
  have n: "3 \<le> length (filter isfinite (uvgrid ?d ?k ?g))"
    by (simp add: uvgrid_row4 isfinite_def)
  have c: "filter isfinite (sigma_clip ?L (1/10) (uvgrid ?d ?k ?g)) = []"
    by (simp add: uvgrid_row4 numpy_astropy_def clip_row4)
  have h: "\<forall>xs n. length (fst (histogram ?L xs n)) = n \<and> length (snd (histogram ?L xs n)) = Suc n"
    using np_histogram_lengths by (simp add: numpy_astropy_def)
  have u: "\<forall>v. (None :: bool list option) = Some v \<longrightarrow> length v = length ?d" by simp
  have m: "''std'' \<in> {''abs'', ''std'', ''mad'', ''fit''}" by simp
  have 1: "histoclip ?L ?d ?k ?g None ''std'' (1/10) (Some []) '''' = Inl IndexError"
    using histoclip_render_blocks [OF _ _ u n c h m, of "[]" "''''"] by simp
  have rs: "robust_stats ?L (uvgrid ?d ?k ?g) (length (filter isfinite (uvgrid ?d ?k ?g))) ''std'' (1/10)
              (None \<noteq> (None :: axes option)) = Inr (Some (None, None, None))"
    by (simp add: robust_stats_def Let_def uvgrid_row4 numpy_astropy_def clip_row4
        choose_stats_policies np_nanmean_def np_nanstd_def finite_values_def)
  have 2: "histoclip ?L ?d ?k ?g None ''std'' (1/10) None '''' = Inr ([False, False, False, False], None)"
    by (simp add: histoclip_unfold [OF _ _ n rs] clip_select_def)
  from 1 2 show ?thesis by blast
qed

lemma uvgrid_row7:
  "uvgrid [Some 0, Some 1, Some 1, Some 3, Some 9, Some 9, Some 9]
      [False, False, False, False, False, False, False]
      [(1, 0), (2, 0), (3, 0), (4, 0), (5, 0), (6, 0), (7, 0)]
   = [Some 0, Some 1, Some 1, Some 3, Some 9, Some 9, Some 9]"
  by (simp add: grid_defs)

lemma clip_row7_tenth:
  "astropy_sigma_clip (1/10) [Some 0, Some 1, Some 1, Some 3, Some 9, Some 9, Some 9] = [Some 3]"
  by (simp add: clip_defs stat_defs Let_def)

lemma clip_row7_half:
  "astropy_sigma_clip (1/2) [Some 0, Some 1, Some 1, Some 3, Some 9, Some 9, Some 9] = [Some 1, Some 1]"
  by (simp add: clip_defs stat_defs Let_def)

lemma rs7_tenth:
  "robust_stats (numpy_astropy fit_fails) [Some 0, Some 1, Some 1, Some 3, Some 9, Some 9, Some 9] n
     ''std'' (1/10) False = Inr (Some (None, Some 3, Some 0))"
  by (simp add: robust_stats_def numpy_astropy_def clip_row7_tenth choose_stats_def stat_defs Let_def)

lemma rs7_half:
  "robust_stats (numpy_astropy fit_fails) [Some 0, Some 1, Some 1, Some 3, Some 9, Some 9, Some 9] n
     ''std'' (1/2) False = Inr (Some (None, Some 1, Some 0))"
  by (simp add: robust_stats_def numpy_astropy_def clip_row7_half choose_stats_def stat_defs Let_def)

text \<open>
  C6 fails where the sigma clip moves the estimate. Grid and data 0, 1, 1, 3, 9, 9, 9 under
  the policy \<open>std\<close>: at threshold 0.1 the clip keeps the median 3 alone and the cut is 3
  (four samples flagged); at threshold 0.5 it keeps 1, 1, 3, then 1, 1, whose mean is 1
  and whose deviation is 0, and the cut is 1 (six samples flagged).
\<close>

theorem histoclip_threshold_counterexample:
  "histoclip (numpy_astropy fit_fails) [Some 0, Some 1, Some 1, Some 3, Some 9, Some 9, Some 9]
      [False, False, False, False, False, False, False]
      [(1, 0), (2, 0), (3, 0), (4, 0), (5, 0), (6, 0), (7, 0)] None ''std'' (1/10) None ''''
     = Inr ([False, False, False, True, True, True, True], None)
   \<and> histoclip (numpy_astropy fit_fails) [Some 0, Some 1, Some 1, Some 3, Some 9, Some 9, Some 9]
      [False, False, False, False, False, False, False]
      [(1, 0), (2, 0), (3, 0), (4, 0), (5, 0), (6, 0), (7, 0)] None ''std'' (1/2) None ''''
     = Inr ([False, True, True, True, True, True, True], None)
   \<and> (1/10 :: real) \<le> 1/2
   \<and> n_flagged [False, False, False, True, True, True, True]
       < n_flagged [False, True, True, True, True, True, True]"
proof -
  let ?d = "[Some 0, Some 1, Some 1, Some 3, Some 9, Some 9, Some (9::real)]"
  let ?k = "[False, False, False, False, False, False, False]"
  let ?g = "[(1, 0), (2, 0), (3, 0), (4, 0), (5, 0), (6, 0), (7::real, 0::real)]"
  let ?L = "numpy_astropy fit_fails"
  have n: "3 \<le> length (filter isfinite (uvgrid ?d ?k ?g))"
    by (simp add: uvgrid_row7 isfinite_def)
  have r1: "robust_stats ?L (uvgrid ?d ?k ?g) (length (filter isfinite (uvgrid ?d ?k ?g))) ''std'' (1/10)
              (None \<noteq> (None :: axes option)) = Inr (Some (None, Some 3, Some 0))"
    by (simp add: uvgrid_row7 rs7_tenth)
  have r2: "robust_stats ?L (uvgrid ?d ?k ?g) (length (filter isfinite (uvgrid ?d ?k ?g))) ''std'' (1/2)
              (None \<noteq> (None :: axes option)) = Inr (Some (None, Some 1, Some 0))"
    by (simp add: uvgrid_row7 rs7_half)
  have 1: "histoclip ?L ?d ?k ?g None ''std'' (1/10) None '''' = Inr ([False, False, False, True, True, True, True], None)"
    by (simp add: histoclip_unfold [OF _ _ n r1] clip_select_def)
  have 2: "histoclip ?L ?d ?k ?g None ''std'' (1/2) None '''' = Inr ([False, True, True, True, True, True, True], None)"
    by (simp add: histoclip_unfold [OF _ _ n r2] clip_select_def)
  have 3: "n_flagged [False, False, False, True, True, True, True]
       < n_flagged [False, True, True, True, True, True, True]"
    by (simp add: n_flagged_def)
  from 1 2 3 show ?thesis by simp
qed

lemma n_flagged_mono:
  assumes "length m2 = length m1" and "\<forall>i<length m1. m2 ! i \<longrightarrow> m1 ! i"
  shows "n_flagged m2 \<le> n_flagged m1"
  using assms
proof (induction m2 m1 rule: list_induct2)
  case Nil
  then show ?case by (simp add: n_flagged_def)
next
  case (Cons x xs y ys)
  have head: "x \<longrightarrow> y" using Cons.prems [rule_format, of 0] by simp
  have "\<forall>i<length ys. xs ! i \<longrightarrow> ys ! i"
  proof (intro allI impI)
    fix i assume "i < length ys" and "xs ! i"
    then show "ys ! i" using Cons.prems [rule_format, of "Suc i"] by simp
  qed
  then have "n_flagged xs \<le> n_flagged ys" by (rule Cons.IH)
  with head show ?case by (auto simp add: n_flagged_def)
qed

lemma fl_ge_threshold_mono:
  assumes "t1 \<le> t2" and "\<forall>s. std = Some s \<longrightarrow> 0 \<le> s"
    and "fl_ge x (fl_add ave (fl_mul (Some t2) std))"
  shows "fl_ge x (fl_add ave (fl_mul (Some t1) std))"
proof (cases x)
  case None
  with assms(3) show ?thesis by simp
next
  case (Some v)
  show ?thesis
  proof (cases ave)
    case None
    with assms(3) Some show ?thesis by simp
  next
    case a: (Some a)
    show ?thesis
    proof (cases std)
      case None
      with assms(3) Some a show ?thesis by simp
    next
      case s: (Some s)
      with assms(2) have "0 \<le> s" by simp
      with assms(1) have "t1 * s \<le> t2 * s" by (rule mult_right_mono)
      with assms(3) Some a s show ?thesis by simp
    qed
  qed
qed

lemma robust_stats_abs:
  "robust_stats lib u n ''abs'' th False = Inr (Some (None, Some 0, Some 1))"
  by (simp add: robust_stats_def Let_def fl_eq_nan choose_stats_policies)

text \<open>
  C6 as amended. For thresholds \<open>t1 \<le> t2\<close> at which the estimator returns the same
  location and the same scale, the scale not being negative, the mask for \<open>t2\<close> flags no
  more samples than the mask for \<open>t1\<close>. (On a grid of fewer than three finite values both
  masks are all-false, whatever the estimator would return.)
\<close>

theorem histoclip_threshold_monotone:
  assumes "length msk = length data" and "length gruvcoord = length data"
    and "\<forall>u. unflags = Some u \<longrightarrow> length u = length data"
    and "t1 \<le> t2"
    and "3 \<le> length (filter isfinite (uvgrid data msk gruvcoord)) \<longrightarrow>
           (\<exists>fit1 fit2.
              robust_stats lib (uvgrid data msk gruvcoord)
                (length (filter isfinite (uvgrid data msk gruvcoord))) threshmode t1 False
                = Inr (Some (fit1, ave, std))
            \<and> robust_stats lib (uvgrid data msk gruvcoord)
                (length (filter isfinite (uvgrid data msk gruvcoord))) threshmode t2 False
                = Inr (Some (fit2, ave, std)))"
    and "\<forall>s. std = Some s \<longrightarrow> 0 \<le> s"
  shows "\<exists>m1 m2. histoclip lib data msk gruvcoord unflags threshmode t1 None title = Inr (m1, None)
               \<and> histoclip lib data msk gruvcoord unflags threshmode t2 None title = Inr (m2, None)
               \<and> n_flagged m2 \<le> n_flagged m1"
proof (cases "3 \<le> length (filter isfinite (uvgrid data msk gruvcoord))")
  case False
  then have "length (filter isfinite (uvgrid data msk gruvcoord)) < 3" by simp
  then have "histoclip lib data msk gruvcoord unflags threshmode t None title
               = Inr (replicate (length data) False, None)" for t
    using assms(1,2) by (simp add: histoclip_def Let_def)
  then show ?thesis by simp
next
  case True
  with assms(5) obtain fit1 fit2 where
    r1: "robust_stats lib (uvgrid data msk gruvcoord)
           (length (filter isfinite (uvgrid data msk gruvcoord))) threshmode t1
           (None \<noteq> (None :: axes option)) = Inr (Some (fit1, ave, std))" and
    r2: "robust_stats lib (uvgrid data msk gruvcoord)
           (length (filter isfinite (uvgrid data msk gruvcoord))) threshmode t2
           (None \<noteq> (None :: axes option)) = Inr (Some (fit2, ave, std))"
    by auto
  obtain m1 where s1: "clip_select data ave std t1 unflags = Inr m1"
    using clip_select_total [OF assms(3)] by blast
  obtain m2 where s2: "clip_select data ave std t2 unflags = Inr m2"
    using clip_select_total [OF assms(3)] by blast
  have h1: "histoclip lib data msk gruvcoord unflags threshmode t1 None title = Inr (m1, None)"
    by (simp add: histoclip_unfold [OF assms(1,2) True r1] s1)
  have h2: "histoclip lib data msk gruvcoord unflags threshmode t2 None title = Inr (m2, None)"
    by (simp add: histoclip_unfold [OF assms(1,2) True r2] s2)
  note n1 = clip_select_nth [OF s1] and n2 = clip_select_nth [OF s2]
  have "\<forall>i<length m1. m2 ! i \<longrightarrow> m1 ! i"
    using n1 n2 fl_ge_threshold_mono [OF assms(4,6)] by auto
  moreover have "length m2 = length m1" using n1 n2 by simp
  ultimately have "n_flagged m2 \<le> n_flagged m1" by (rule n_flagged_mono [rotated])
  with h1 h2 show ?thesis by blast
qed

text \<open>An instance under \<open>abs\<close>: thresholds 2 and 3 on the data 1, 2, 3, 4.\<close>

theorem histoclip_threshold_monotone_witness:
  "histoclip (numpy_astropy fit_fails) [Some 1, Some 2, Some 3, Some 4] [False, False, False, False]
      [(1, 0), (2, 0), (3, 0), (4, 0)] None ''abs'' 2 None '''' = Inr ([False, True, True, True], None)
   \<and> histoclip (numpy_astropy fit_fails) [Some 1, Some 2, Some 3, Some 4] [False, False, False, False]
      [(1, 0), (2, 0), (3, 0), (4, 0)] None ''abs'' 3 None '''' = Inr ([False, False, True, True], None)
   \<and> n_flagged [False, False, True, True] \<le> n_flagged [False, True, True, True]"
proof -
  let ?d = "[Some 1, Some 2, Some 3, Some (4::real)]"
  let ?k = "[False, False, False, False]"
  let ?g = "[(1, 0), (2, 0), (3, 0), (4::real, 0::real)]"
  let ?L = "numpy_astropy fit_fails"
  have n: "3 \<le> length (filter isfinite (uvgrid ?d ?k ?g))"
    by (simp add: uvgrid_row4 isfinite_def)
  have rs: "robust_stats ?L (uvgrid ?d ?k ?g) (length (filter isfinite (uvgrid ?d ?k ?g))) ''abs'' t
              (None \<noteq> (None :: axes option)) = Inr (Some (None, Some 0, Some 1))" for t
    by (simp add: robust_stats_abs)
  have 1: "histoclip ?L ?d ?k ?g None ''abs'' 2 None '''' = Inr ([False, True, True, True], None)"
    by (simp add: histoclip_unfold [OF _ _ n rs] clip_select_def)
  have 2: "histoclip ?L ?d ?k ?g None ''abs'' 3 None '''' = Inr ([False, False, True, True], None)"
    by (simp add: histoclip_unfold [OF _ _ n rs] clip_select_def)
  have u: "\<forall>v. (None :: bool list option) = Some v \<longrightarrow> length v = length ?d" by simp
  have e: "3 \<le> length (filter isfinite (uvgrid ?d ?k ?g)) \<longrightarrow>
           (\<exists>fit1 fit2.
              robust_stats ?L (uvgrid ?d ?k ?g)
                (length (filter isfinite (uvgrid ?d ?k ?g))) ''abs'' 2 False
                = Inr (Some (fit1, Some 0, Some 1))
            \<and> robust_stats ?L (uvgrid ?d ?k ?g)
                (length (filter isfinite (uvgrid ?d ?k ?g))) ''abs'' 3 False
                = Inr (Some (fit2, Some 0, Some 1)))"
    by (simp add: robust_stats_abs)
  have s: "\<forall>s. Some (1::real) = Some s \<longrightarrow> 0 \<le> s" by simp
  have t: "(2::real) \<le> 3" by simp
  from histoclip_threshold_monotone [OF _ _ u t e s, of "''''"]
  have "n_flagged [False, False, True, True] \<le> n_flagged [False, True, True, True]"
    using 1 2 by simp
  with 1 2 show ?thesis by blast
qed

section \<open>Properties of the grouping and of the wedge\<close>

lemma np_unique_nonempty: "xs \<noteq> [] \<Longrightarrow> np_unique xs \<noteq> []"
proof -
  assume "xs \<noteq> []"
  then have "set (np_unique xs) \<noteq> {}" by (simp add: np_unique_def)
  then show ?thesis by auto
qed

text \<open>
  C4. In mode \<open>antenna\<close>, on any data set with at least one row, the dispatch does not
  run the clip once per antenna and return the union of the masks: it raises
  \<open>UnboundLocalError\<close> for \<open>t\<close> at the first antenna (line 956).
\<close>

theorem phazer_antenna_aborts:
  assumes "antenna1 \<noteq> [] \<or> antenna2 \<noteq> []"
  shows "phazer_clip lib data gruvcoord antenna1 antenna2 unflags ''antenna'' threshmode threshold show
           = Inl (UnboundLocalError ''t'')"
proof -
  from assms have "np_unique (antenna1 @ antenna2) \<noteq> []"
    by (intro np_unique_nonempty) auto
  then obtain a as where "np_unique (antenna1 @ antenna2) = a # as"
    by (cases "np_unique (antenna1 @ antenna2)") auto
  then show ?thesis
    by (simp add: phazer_clip_def Let_def antenna_pass_def)
qed

theorem phazer_antenna_aborts_witness:
  "phazer_clip (numpy_astropy fit_fails) [Some 1, Some 1, Some 50] [(1, 1), (2, 1), (3, 1)]
     [0, 0, 1] [1, 2, 2] None ''antenna'' ''std'' 5 None = Inl (UnboundLocalError ''t'')"
  using phazer_antenna_aborts [of "[0, 0, 1]" "[1, 2, 2]" "numpy_astropy fit_fails"
      "[Some 1, Some 1, Some 50]" "[(1, 1), (2, 1), (3, 1)]" None "''std''" 5 None]
  by simp

text \<open>
  C7. No wedge is built: \<open>arc1 + arc2\<close> in line 119 adds two \<open>zip\<close> objects, which
  raises \<open>TypeError\<close> for every centre, radial range and angle. The containment of the
  seed point is therefore never tested.
\<close>

theorem wedge_around_centre_raises:
  "wedge_around_centre coord radrange angle = Inl TypeError"
  by (simp add: wedge_around_centre_def Let_def)

theorem wedge_around_centre_raises_witness:
  "wedge_around_centre (3, 4) 1 10 = Inl TypeError"
  by (rule wedge_around_centre_raises)

text \<open>So the expansion of lines 1038-1060 raises as soon as the clip has flagged a sample.\<close>

lemma wedge_expand_raises:
  assumes "0 < radrange" and "0 < angle" and "length uv = length newflags" and "True \<in> set newflags"
  shows "wedge_expand cp uv radrange angle unflags newflags = Inl TypeError"
proof -
  from assms(4) obtain i where i: "i < length newflags" "newflags ! i"
    by (auto simp add: in_set_conv_nth)
  with assms(3) have "(uv ! i, newflags ! i) \<in> set (zip uv newflags)"
    by (auto simp add: in_set_zip)
  with i(2) have "\<exists>x\<in>set (zip uv newflags). snd x"
    by (intro bexI [of _ "(uv ! i, newflags ! i)"]) simp_all
  then have "filter snd (zip uv newflags) \<noteq> []"
    by (simp add: filter_empty_conv)
  then obtain p ps where "map fst (filter snd (zip uv newflags)) = p # ps"
    by (cases "filter snd (zip uv newflags)") auto
  then show ?thesis
    using assms(1,2) by (simp add: wedge_expand_def wedge_around_centre_def Let_def)
qed

section \<open>Properties of readdata\<close>

lemma flag_rows_length: "length (flag_rows sel flags) = min (length sel) (length flags)"
  by (simp add: flag_rows_def)

lemma flag_rows_nth:
  assumes "r < length sel" and "r < length flags"
  shows "flag_rows sel flags ! r = (if sel ! r then map (\<lambda>f. True) (flags ! r) else flags ! r)"
  using assms by (simp add: flag_rows_def)

lemma flag_rows_keeps_all_true:
  assumes "r < length sel" and "r < length flags" and "list_all id (flags ! r)"
  shows "list_all id (flag_rows sel flags ! r) \<and> length (flag_rows sel flags ! r) = length (flags ! r)"
  using assms by (auto simp add: flag_rows_nth list_all_iff)

lemma blank_all_true:
  "list_all id fs \<Longrightarrow> list_all (\<lambda>x. x = None) (map (\<lambda>(d, f). if f then None else d) (zip ds fs))"
  by (induction ds fs rule: list_induct2') simp_all

lemma channels_all_true:
  "list_all id fs \<Longrightarrow> list_all id (map (\<lambda>(f, c). f \<or> \<not> c) (zip fs ch))"
  by (induction fs ch rule: list_induct2') simp_all

lemma readdata_unfold:
  assumes "readdata data flags field antenna1 antenna2 fieldsel channels baselines pol = Inr (d, f)"
  shows "ms_shapes_ok data flags field antenna1 antenna2 fieldsel channels"
    and "pol = ''i'' \<or> pol = ''q''"
    and "\<not> (baselines = Some [] \<and> zip antenna1 antenna2 \<noteq> [])"
proof -
  show "ms_shapes_ok data flags field antenna1 antenna2 fieldsel channels"
  proof (rule ccontr)
    assume "\<not> ms_shapes_ok data flags field antenna1 antenna2 fieldsel channels"
    then have "readdata data flags field antenna1 antenna2 fieldsel channels baselines pol = Inl IndexError"
      by (simp add: readdata_def)
    with assms show False by simp
  qed
  note sh = this
  show "pol = ''i'' \<or> pol = ''q''"
  proof (rule ccontr)
    assume "\<not> (pol = ''i'' \<or> pol = ''q'')"
    then have "readdata data flags field antenna1 antenna2 fieldsel channels baselines pol = Inl TypeError"
      using sh by (simp add: readdata_def)
    with assms show False by simp
  qed
  note pol = this
  show "\<not> (baselines = Some [] \<and> zip antenna1 antenna2 \<noteq> [])"
  proof
    assume "baselines = Some [] \<and> zip antenna1 antenna2 \<noteq> []"
    then have "readdata data flags field antenna1 antenna2 fieldsel channels baselines pol = Inl IndexError"
      using sh pol by (simp add: readdata_def flag_baselines_def Let_def)
    with assms show False by simp
  qed
qed

lemma readdata_Inr:
  assumes "ms_shapes_ok data flags field antenna1 antenna2 fieldsel channels"
    and "pol = ''i'' \<or> pol = ''q''"
    and "\<not> (baselines = Some [] \<and> zip antenna1 antenna2 \<noteq> [])"
  shows "readdata data flags field antenna1 antenna2 fieldsel channels baselines pol =
           Inr (blank_flagged (map (map fst) (stokes_all pol data flags))
                  (select_baselines baselines antenna1 antenna2
                    (flag_channels channels
                      (flag_autocorrelations antenna1 antenna2
                        (flag_fields fieldsel field (map (map snd) (stokes_all pol data flags)))))),
                select_baselines baselines antenna1 antenna2
                    (flag_channels channels
                      (flag_autocorrelations antenna1 antenna2
                        (flag_fields fieldsel field (map (map snd) (stokes_all pol data flags))))))"
  using assms by (auto simp add: readdata_def flag_baselines_def Let_def)


lemma readdata_autocorr_rows:
  assumes rd: "readdata data flags field antenna1 antenna2 fieldsel channels baselines pol = Inr (d, f)"
    and "r < length antenna1" and "antenna1 ! r = antenna2 ! r"
  shows "r < length f \<and> r < length d
       \<and> length (f ! r) = length (data ! r) \<and> list_all id (f ! r)
       \<and> length (d ! r) = length (data ! r) \<and> list_all (\<lambda>x. x = None) (d ! r)
       \<and> collaflags_of f ! r
       \<and> (\<forall>u v uvmin uvmax duv uu vv. r < length u \<and> r < length v \<longrightarrow>
            \<not> grid_active_visibs u v (collaflags_of f) uvmin uvmax duv uu vv ! r)"
proof (intro conjI allI impI)
  note sh = readdata_unfold(1) [OF rd] and pol = readdata_unfold(2) [OF rd]
    and nb = readdata_unfold(3) [OF rd]
  let ?n = "length data"
  let ?m = "length (data ! r)"
  have l2: "list_all2 (list_all2 (\<lambda>ps fs. ps \<noteq> [] \<and> length ps = length fs)) data flags"
    and la: "length antenna1 = ?n" "length antenna2 = ?n"
    using sh by (simp_all add: ms_shapes_ok_def)
  have lf: "length flags = ?n" using l2 by (simp add: list_all2_lengthD)
  have r: "r < ?n" using assms(2) la by simp
  have lrow: "length (flags ! r) = ?m"
    using l2 r by (simp add: list_all2_conv_all_nth)
  define st where "st = stokes_all pol data flags"
  define flags1 where "flags1 = flag_fields fieldsel field (map (map snd) st)"
  define flags2 where "flags2 = flag_autocorrelations antenna1 antenna2 flags1"
  define flags3 where "flags3 = flag_channels channels flags2"
  define flags4 where "flags4 = select_baselines baselines antenna1 antenna2 flags3"
  have "Inr (d, f) = (Inr (blank_flagged (map (map fst) st) flags4, flags4)
          :: error + (cfl list list \<times> bool list list))"
    unfolding flags4_def flags3_def flags2_def flags1_def st_def
    by (rule trans [OF rd [symmetric] readdata_Inr [OF sh pol nb]])
  then have res: "d = blank_flagged (map (map fst) st) flags4" "f = flags4"
    by simp_all
  have st: "length st = ?n" "length (st ! r) = ?m"
    using r lf lrow by (simp_all add: st_def stokes_all_def)
  have f1: "length flags1 = ?n \<and> length (flags1 ! r) = ?m"
  proof (cases fieldsel)
    case None
    then show ?thesis using st r by (simp add: flags1_def flag_fields_def)
  next
    case (Some fl)
    then have "length field = ?n" using sh by (simp add: ms_shapes_ok_def)
    then show ?thesis using Some st r
      by (simp add: flags1_def flag_fields_def flag_rows_length flag_rows_nth)
  qed
  have f2: "length flags2 = ?n" "length (flags2 ! r) = ?m" "list_all id (flags2 ! r)"
    using f1 la r assms(3)
    by (simp_all add: flags2_def flag_autocorrelations_def flag_rows_length flag_rows_nth list_all_iff)
  have f3: "length flags3 = ?n \<and> length (flags3 ! r) = ?m \<and> list_all id (flags3 ! r)"
  proof (cases channels)
    case None
    then show ?thesis using f2 by (simp add: flags3_def flag_channels_def)
  next
    case (Some ch)
    then have "?m = length ch"
      using sh r by (simp add: ms_shapes_ok_def list_all_length)
    moreover have "list_all id (map (\<lambda>(f, c). f \<or> \<not> c) (zip (flags2 ! r) ch))"
      using f2(3) by (rule channels_all_true)
    ultimately show ?thesis using Some f2 r
      by (simp add: flags3_def flag_channels_def)
  qed
  have f4: "length flags4 = ?n \<and> length (flags4 ! r) = ?m \<and> list_all id (flags4 ! r)"
  proof (cases baselines)
    case None
    then show ?thesis using f3 by (simp add: flags4_def select_baselines_def)
  next
    case (Some bl)
    then show ?thesis using f3 la r
      by (simp add: flags4_def select_baselines_def flag_rows_length flag_rows_keeps_all_true)
  qed
  have d2: "length d = ?n" using st f4 by (simp add: res blank_flagged_def)
  have d2row: "d ! r = map (\<lambda>(x, g). if g then None else x) (zip (map fst (st ! r)) (flags4 ! r))"
    using st f4 r by (simp add: res blank_flagged_def)
  have d2none: "list_all (\<lambda>x. x = None) (d ! r)"
    unfolding d2row using f4 by (intro blank_all_true) simp
  have d2len: "length (d ! r) = ?m"
    using st f4 by (simp add: d2row)
  have coll: "collaflags_of f ! r" using f4 r by (simp add: res collaflags_of_def)
  have grid: "\<not> grid_active_visibs u v (collaflags_of f) uvmin uvmax duv uu vv ! r"
    if "r < length u \<and> r < length v" for u v uvmin uvmax duv uu vv
    using that coll f4 r by (simp add: res grid_active_visibs_def collaflags_of_def)
  show "r < length f" using f4 r by (simp add: res)
  show "r < length d" using d2 r by simp
  show "length (f ! r) = ?m" using f4 by (simp add: res)
  show "list_all id (f ! r)" using f4 by (simp add: res)
  show "length (d ! r) = ?m" by (rule d2len)
  show "list_all (\<lambda>x. x = None) (d ! r)" by (rule d2none)
  show "collaflags_of f ! r" by (rule coll)
  fix u v :: "real list" and uvmin :: real and uvmax :: "real option" and duv uu vv :: real
  assume "r < length u \<and> r < length v"
  then show "\<not> grid_active_visibs u v (collaflags_of f) uvmin uvmax duv uu vv ! r"
    by (rule grid)
qed

text \<open>
  \<open>readdata\<close> returns on well-shaped columns for both polarisation choices, unless the
  baseline selection is the empty list and there are rows.
\<close>

lemma readdata_returns:
  assumes "ms_shapes_ok data flags field antenna1 antenna2 fieldsel channels"
    and "pol = ''i'' \<or> pol = ''q''"
    and "\<not> (baselines = Some [] \<and> zip antenna1 antenna2 \<noteq> [])"
  shows "\<exists>d f. readdata data flags field antenna1 antenna2 fieldsel channels baselines pol = Inr (d, f)"
  using readdata_Inr [OF assms] by blast

lemma readdata_empty_baselines:
  assumes "ms_shapes_ok data flags field antenna1 antenna2 fieldsel channels"
    and "pol = ''i'' \<or> pol = ''q''"
    and "data \<noteq> []"
  shows "readdata data flags field antenna1 antenna2 fieldsel channels (Some []) pol = Inl IndexError"
proof -
  have "length antenna1 = length data" "length antenna2 = length data"
    using assms(1) by (simp_all add: ms_shapes_ok_def)
  with assms(3) have "zip antenna1 antenna2 \<noteq> []"
    by (cases antenna1; cases antenna2) auto
  with assms(1,2) show ?thesis
    by (simp add: readdata_def flag_baselines_def Let_def)
qed

section \<open>Properties of vampirisms\<close>

lemma add_window_length: "length flags = length etimes \<Longrightarrow> length (add_window flags etimes lo hi) = length etimes"
  by (simp add: add_window_def)

lemma add_window_nth:
  "length flags = length etimes \<Longrightarrow> i < length etimes \<Longrightarrow>
   add_window flags etimes lo hi ! i = (flags ! i \<or> (lo \<le> etimes ! i \<and> etimes ! i \<le> hi))"
  by (simp add: add_window_def)

lemma ex_nat_split: "(\<exists>k. Q k) = (Q (0::nat) \<or> (\<exists>k. Q (Suc k)))"
  by (metis not0_implies_Suc)

lemma walked_rising_0: "walked_rising rising setting esti 0 = esti"
  by (simp add: walked_rising_def)

lemma walked_rising_Suc:
  "walked_rising rising setting esti (Suc k) = walked_rising rising setting (rising (setting esti)) k"
  by (simp add: walked_rising_def funpow_Suc_right del: funpow.simps)

text \<open>
  The loop with \<open>nononsoleil\<close> set. If consecutive risings are at least \<open>delta > 0\<close>
  apart, the walk ends, and it has added to the flags exactly the time stamps in
  \<open>[rise k - avantsoleil, set k + apresoleil]\<close> for the daylight periods \<open>k\<close> it has
  walked, those up to the first rising that is not before the end of the observation
  (less the margin).
\<close>

lemma sun_walk_daylight:
  assumes "0 < delta" and "\<forall>e. e + delta \<le> rising (setting e)"
    and "length flags0 = length etimes"
  shows "\<exists>flags. sun_walk rising setting True avantsoleil apresnuit avantnuit apresoleil eobsend etimes esti flags0
             = Some flags
         \<and> length flags = length etimes
         \<and> (\<forall>i<length etimes.
               flags ! i =
                 (flags0 ! i \<or>
                  (\<exists>k. (\<forall>j\<le>k. walked_rising rising setting esti j - avantsoleil < eobsend)
                      \<and> walked_rising rising setting esti k - avantsoleil \<le> etimes ! i
                      \<and> etimes ! i \<le> setting (walked_rising rising setting esti k) + apresoleil)))"
  using assms(3)
proof (induction "nat \<lceil>(eobsend + avantsoleil - esti) / delta\<rceil>" arbitrary: esti flags0 rule: less_induct)
  case less
  show ?case
  proof (cases "esti - avantsoleil < eobsend")
    case False
    then have nk: "\<not> (\<forall>j\<le>k. walked_rising rising setting esti j - avantsoleil < eobsend)" for k
      by (auto simp add: walked_rising_0 intro!: exI [of _ 0])
    have "sun_walk rising setting True avantsoleil apresnuit avantnuit apresoleil eobsend etimes esti flags0
             = Some flags0"
      using False by (subst sun_walk.simps) simp
    with less.prems nk show ?thesis by blast
  next
    case True
    let ?eeti = "setting esti"
    let ?esti' = "rising ?eeti"
    let ?flags' = "add_window flags0 etimes (esti - avantsoleil) (?eeti + apresoleil)"
    have step: "esti + delta \<le> ?esti'" using assms(2) by simp
    have pos: "0 < (eobsend + avantsoleil - esti) / delta" using True assms(1) by simp
    have "(eobsend + avantsoleil - ?esti') / delta \<le> (eobsend + avantsoleil - esti) / delta - 1"
    proof -
      have "eobsend + avantsoleil - ?esti' \<le> (eobsend + avantsoleil - esti) - delta"
        using step by simp
      then have "(eobsend + avantsoleil - ?esti') / delta \<le> ((eobsend + avantsoleil - esti) - delta) / delta"
        using assms(1) by (simp add: divide_right_mono)
      also have "\<dots> = (eobsend + avantsoleil - esti) / delta - 1"
        using assms(1) by (simp add: diff_divide_distrib)
      finally show ?thesis .
    qed
    then have "\<lceil>(eobsend + avantsoleil - ?esti') / delta\<rceil> \<le> \<lceil>(eobsend + avantsoleil - esti) / delta\<rceil> - 1"
      by (metis ceiling_diff_one ceiling_mono)
    moreover have "0 < \<lceil>(eobsend + avantsoleil - esti) / delta\<rceil>" using pos by simp
    ultimately have dec: "nat \<lceil>(eobsend + avantsoleil - ?esti') / delta\<rceil> < nat \<lceil>(eobsend + avantsoleil - esti) / delta\<rceil>"
      by linarith
    have len': "length ?flags' = length etimes"
      using less.prems by (rule add_window_length)
    from less.hyps [OF dec len'] obtain flags where
      w: "sun_walk rising setting True avantsoleil apresnuit avantnuit apresoleil eobsend etimes ?esti' ?flags'
            = Some flags"
      and l: "length flags = length etimes"
      and c: "\<forall>i<length etimes.
               flags ! i =
                 (?flags' ! i \<or>
                  (\<exists>k. (\<forall>j\<le>k. walked_rising rising setting ?esti' j - avantsoleil < eobsend)
                      \<and> walked_rising rising setting ?esti' k - avantsoleil \<le> etimes ! i
                      \<and> etimes ! i \<le> setting (walked_rising rising setting ?esti' k) + apresoleil))"
      by blast
    have run: "sun_walk rising setting True avantsoleil apresnuit avantnuit apresoleil eobsend etimes esti flags0
             = Some flags"
      using True w by (subst sun_walk.simps) (simp add: Let_def)
    have "flags ! i =
                 (flags0 ! i \<or>
                  (\<exists>k. (\<forall>j\<le>k. walked_rising rising setting esti j - avantsoleil < eobsend)
                      \<and> walked_rising rising setting esti k - avantsoleil \<le> etimes ! i
                      \<and> etimes ! i \<le> setting (walked_rising rising setting esti k) + apresoleil))"
      if i: "i < length etimes" for i
    proof -
      let ?P = "\<lambda>e k. (\<forall>j\<le>k. walked_rising rising setting e j - avantsoleil < eobsend)
                      \<and> walked_rising rising setting e k - avantsoleil \<le> etimes ! i
                      \<and> etimes ! i \<le> setting (walked_rising rising setting e k) + apresoleil"
      have shift: "?P esti (Suc k) = ?P ?esti' k" for k
      proof -
        have "(\<forall>j\<le>Suc k. walked_rising rising setting esti j - avantsoleil < eobsend)
              = (\<forall>j\<le>k. walked_rising rising setting ?esti' j - avantsoleil < eobsend)"
        proof
          assume a: "\<forall>j\<le>Suc k. walked_rising rising setting esti j - avantsoleil < eobsend"
          show "\<forall>j\<le>k. walked_rising rising setting ?esti' j - avantsoleil < eobsend"
          proof (intro allI impI)
            fix j assume "j \<le> k"
            then have "Suc j \<le> Suc k" by simp
            with a have "walked_rising rising setting esti (Suc j) - avantsoleil < eobsend" by blast
            then show "walked_rising rising setting ?esti' j - avantsoleil < eobsend"
              by (simp add: walked_rising_Suc)
          qed
        next
          assume a: "\<forall>j\<le>k. walked_rising rising setting ?esti' j - avantsoleil < eobsend"
          show "\<forall>j\<le>Suc k. walked_rising rising setting esti j - avantsoleil < eobsend"
          proof (intro allI impI)
            fix j assume j: "j \<le> Suc k"
            show "walked_rising rising setting esti j - avantsoleil < eobsend"
            proof (cases j)
              case 0
              then show ?thesis using True by (simp add: walked_rising_0)
            next
              case (Suc j')
              with j have "j' \<le> k" by simp
              with a Suc show ?thesis by (simp add: walked_rising_Suc)
            qed
          qed
        qed
        then show ?thesis by (simp add: walked_rising_Suc)
      qed
      have zero: "?P esti 0 = (esti - avantsoleil \<le> etimes ! i \<and> etimes ! i \<le> ?eeti + apresoleil)"
        using True by (simp add: walked_rising_0)
      have "(\<exists>k. ?P esti k) = (?P esti 0 \<or> (\<exists>k. ?P esti (Suc k)))"
        by (rule ex_nat_split)
      then have ex: "(\<exists>k. ?P esti k) =
            ((esti - avantsoleil \<le> etimes ! i \<and> etimes ! i \<le> ?eeti + apresoleil) \<or> (\<exists>k. ?P ?esti' k))"
        unfolding zero shift .
      have "flags ! i = (?flags' ! i \<or> (\<exists>k. ?P ?esti' k))"
        using c i by blast
      also have "?flags' ! i = (flags0 ! i \<or> (esti - avantsoleil \<le> etimes ! i \<and> etimes ! i \<le> ?eeti + apresoleil))"
        using less.prems i by (rule add_window_nth)
      finally show ?thesis unfolding ex by blast
    qed
    with run l show ?thesis by blast
  qed
qed

text \<open>
  C8. With \<open>nononsoleil\<close> set and no inversion, on an ephemeris whose consecutive risings
  are at least \<open>delta > 0\<close> apart, \<open>vampirisms\<close> returns flags, one per time stamp, and
  a time stamp is flagged exactly when it lies in the closed window
  \<open>[esti - avantsoleil, eeti + apresoleil]\<close> of some daylight period the loop has walked,
  \<open>eeti\<close> being the setting that follows the rising \<open>esti\<close>. The first period starts at
  the start of the observation when the next setting precedes the next rising there (the
  sun is up), and at the next rising otherwise.
\<close>

theorem vampirisms_daylight_windows:
  assumes "0 < delta" and "\<forall>e. e + delta \<le> rising (setting e)"
    and "observation_span time_col interval_col = Inr (etimes, eobstart, eobsend)"
  shows "\<exists>flags.
           vampirisms_flags rising setting time_col interval_col avantsoleil apresnuit avantnuit
             apresoleil True False = Some (Inr flags)
         \<and> length flags = length etimes
         \<and> (\<forall>i<length etimes.
               flags ! i =
                 (\<exists>k. (\<forall>j\<le>k. walked_rising rising setting (first_daylight rising setting eobstart) j
                                  - avantsoleil < eobsend)
                    \<and> walked_rising rising setting (first_daylight rising setting eobstart) k
                          - avantsoleil \<le> etimes ! i
                    \<and> etimes ! i \<le> setting (walked_rising rising setting
                                         (first_daylight rising setting eobstart) k) + apresoleil))
         \<and> walked_rising rising setting (first_daylight rising setting eobstart) 0
             = (if setting eobstart < rising eobstart then eobstart else rising eobstart)"
proof -
  let ?esti = "first_daylight rising setting eobstart"
  have len0: "length (replicate (length etimes) False) = length etimes" by simp
  from sun_walk_daylight [where rising = rising and setting = setting and esti = ?esti
      and avantsoleil = avantsoleil and apresnuit = apresnuit and avantnuit = avantnuit
      and apresoleil = apresoleil and eobsend = eobsend, OF assms(1,2) len0]
  obtain flags where
    w: "sun_walk rising setting True avantsoleil apresnuit avantnuit apresoleil eobsend etimes ?esti
          (replicate (length etimes) False) = Some flags"
    and l: "length flags = length etimes"
    and c: "\<forall>i<length etimes.
               flags ! i =
                 (replicate (length etimes) False ! i \<or>
                  (\<exists>k. (\<forall>j\<le>k. walked_rising rising setting ?esti j - avantsoleil < eobsend)
                      \<and> walked_rising rising setting ?esti k - avantsoleil \<le> etimes ! i
                      \<and> etimes ! i \<le> setting (walked_rising rising setting ?esti k) + apresoleil))"
    by blast
  have v: "vampirisms_flags rising setting time_col interval_col avantsoleil apresnuit avantnuit
             apresoleil True False = Some (Inr flags)"
    by (simp add: vampirisms_flags_def assms(3) w)
  have c': "\<forall>i<length etimes.
               flags ! i =
                  (\<exists>k. (\<forall>j\<le>k. walked_rising rising setting ?esti j - avantsoleil < eobsend)
                      \<and> walked_rising rising setting ?esti k - avantsoleil \<le> etimes ! i
                      \<and> etimes ! i \<le> setting (walked_rising rising setting ?esti k) + apresoleil)"
    using c by simp
  have s: "walked_rising rising setting ?esti 0
             = (if setting eobstart < rising eobstart then eobstart else rising eobstart)"
    by (simp add: walked_rising_0 first_daylight_def Let_def)
  from v l c' s show ?thesis by blast
qed

lemma equinox_progress: "\<forall>e. e + 1 / 2 \<le> equinox_rising (equinox_setting e)"
proof
  fix e :: real
  have "equinox_rising (equinox_setting e) = of_int \<lfloor>e + 1 / 4\<rfloor> + 5 / 4"
  proof -
    have "\<lfloor>of_int \<lfloor>e + 1 / 4\<rfloor> + (3 / 2 :: real)\<rfloor> = \<lfloor>e + 1 / 4\<rfloor> + 1"
      by (subst floor_add_int [symmetric, of "3 / 2" "\<lfloor>e + 1 / 4\<rfloor>"] | simp add: add.commute)+
    then show ?thesis by (simp add: equinox_rising_def equinox_setting_def algebra_simps)
  qed
  moreover have "e + 1 / 4 < of_int \<lfloor>e + 1 / 4\<rfloor> + 1" by linarith
  ultimately show "e + 1 / 2 \<le> equinox_rising (equinox_setting e)" by linarith
qed

lemma span3:
  "observation_span [1297693440, 1297728000, 1297762560] [8640, 8640, 8640]
     = Inr ([1 / 10, 1 / 2, 9 / 10], 1 / 20, 19 / 20)"
  by (simp add: observation_span_def astropy_to_pyephemtime_def Let_def)

text \<open>
  An instance: three time stamps at 0.1, 0.5 and 0.9 of a day, the sun up from 0.25 to
  0.75; the sample at 0.5 is the one flagged.
\<close>

lemma first3: "first_daylight equinox_rising equinox_setting (1 / 20) = 1 / 4"
  by (simp add: first_daylight_def equinox_rising_def equinox_setting_def Let_def)

lemma walk3:
  "sun_walk equinox_rising equinox_setting True 0 0 0 0 (19 / 20) [1 / 10, 1 / 2, 9 / 10] (1 / 4)
     [False, False, False] = Some [False, True, False]"
  apply (subst sun_walk.simps)
  apply (simp add: equinox_rising_def equinox_setting_def add_window_def Let_def)
  apply (subst sun_walk.simps)
  apply (simp add: equinox_rising_def equinox_setting_def add_window_def Let_def)
  done

theorem vampirisms_daylight_windows_witness:
  "vampirisms_flags equinox_rising equinox_setting [1297693440, 1297728000, 1297762560]
     [8640, 8640, 8640] 0 0 0 0 True False = Some (Inr [False, True, False])
   \<and> (\<exists>k. (\<forall>j\<le>k. walked_rising equinox_rising equinox_setting (1 / 4) j - 0 < 19 / 20)
          \<and> walked_rising equinox_rising equinox_setting (1 / 4) k - 0 \<le> 1 / 2
          \<and> 1 / 2 \<le> equinox_setting (walked_rising equinox_rising equinox_setting (1 / 4) k) + 0)"
proof -
  have ev: "vampirisms_flags equinox_rising equinox_setting [1297693440, 1297728000, 1297762560]
     [8640, 8640, 8640] 0 0 0 0 True False = Some (Inr [False, True, False])"
    by (simp add: vampirisms_flags_def span3 first3 walk3)
  have d: "(0::real) < 1 / 2" by simp
  from vampirisms_daylight_windows [where rising = equinox_rising and setting = equinox_setting
      and avantsoleil = 0 and apresnuit = 0 and avantnuit = 0 and apresoleil = 0,
      OF d equinox_progress span3]
  obtain flags where
    v: "vampirisms_flags equinox_rising equinox_setting [1297693440, 1297728000, 1297762560]
          [8640, 8640, 8640] 0 0 0 0 True False = Some (Inr flags)"
    and c: "\<forall>i<length [1 / 10, 1 / 2, 9 / 10 :: real].
               flags ! i =
                 (\<exists>k. (\<forall>j\<le>k. walked_rising equinox_rising equinox_setting
                                  (first_daylight equinox_rising equinox_setting (1 / 20)) j
                                  - 0 < 19 / 20)
                    \<and> walked_rising equinox_rising equinox_setting
                          (first_daylight equinox_rising equinox_setting (1 / 20)) k
                          - 0 \<le> [1 / 10, 1 / 2, 9 / 10] ! i
                    \<and> [1 / 10, 1 / 2, 9 / 10] ! i \<le> equinox_setting (walked_rising equinox_rising equinox_setting
                                         (first_daylight equinox_rising equinox_setting (1 / 20)) k) + 0)"
    by blast
  from v ev have f: "flags = [False, True, False]" by simp
  from c [rule_format, of 1] have
    "flags ! 1 = (\<exists>k. (\<forall>j\<le>k. walked_rising equinox_rising equinox_setting (1 / 4) j - 0 < 19 / 20)
          \<and> walked_rising equinox_rising equinox_setting (1 / 4) k - 0 \<le> 1 / 2
          \<and> 1 / 2 \<le> equinox_setting (walked_rising equinox_rising equinox_setting (1 / 4) k) + 0)"
    by (simp add: first3)
  with f ev show ?thesis by simp
qed

section \<open>Properties of the table operations\<close>

lemma log_io_reads:
  assumes "\<forall>e\<in>set evs. \<not> is_write e"
  shows "flag_cols (log_io evs st) = flag_cols st"
    and "filter is_write (io_trace (log_io evs st)) = filter is_write (io_trace st)"
  using assms by (simp_all add: log_io_def filter_empty_conv)

lemma phazer_read_frame:
  "flag_cols (snd (phazer_read col inset st)) = flag_cols st
   \<and> filter is_write (io_trace (snd (phazer_read col inset st))) = filter is_write (io_trace st)"
proof (induction inset arbitrary: st)
  case Nil
  show ?case by simp
next
  case (Cons name inset)
  let ?st = "log_io [Open_table name True, Get_col name col, Get_col name ''FLAG'',
                      Get_col name ''UVW'', Get_col name ''ANTENNA1'', Get_col name ''ANTENNA2'',
                      Close_table name] st"
  have r: "flag_cols ?st = flag_cols st" "filter is_write (io_trace ?st) = filter is_write (io_trace st)"
    by (simp_all add: log_io_def)
  show ?case
  proof (cases "name \<in> dom (flag_cols st)")
    case False
    then show ?thesis by simp
  next
    case True
    then have "phazer_read col (name # inset) st = phazer_read col inset ?st" by simp
    with Cons.IH [of ?st] r show ?thesis by simp
  qed
qed

lemma phazer_apply_one_dryrun:
  "phazer_apply_one True inset outset newflags nrows i st = (None, st)"
  by (simp add: phazer_apply_one_def Let_def)

lemma phazer_apply_loop_dryrun:
  "phazer_apply_loop True inset outset newflags nrows idx st = (None, st)"
  by (induction idx) (simp_all add: phazer_apply_one_dryrun)

lemma phazer_apply_dryrun:
  "snd (phazer_apply True inset outset newflags nrows st) = st"
  by (cases outset) (simp_all add: phazer_apply_def phazer_apply_loop_dryrun)

lemma phazer_io_dryrun:
  "flag_cols (snd (phazer_io flagging col inset outset True st)) = flag_cols st
   \<and> filter is_write (io_trace (snd (phazer_io flagging col inset outset True st)))
       = filter is_write (io_trace st)"
proof -
  obtain e st1 where r: "phazer_read col inset st = (e, st1)" by fastforce
  have f: "flag_cols st1 = flag_cols st"
    "filter is_write (io_trace st1) = filter is_write (io_trace st)"
    using phazer_read_frame [of col inset st] r by simp_all
  show ?thesis
  proof (cases e)
    case (Some a)
    with r f show ?thesis by (simp add: phazer_io_def)
  next
    case None
    show ?thesis
    proof (cases "flagging st1")
      case (Inl a)
      with None r f show ?thesis by (simp add: phazer_io_def)
    next
      case (Inr p)
      obtain newflags nrows where p: "p = (newflags, nrows)" by (cases p)
      with None r Inr f show ?thesis by (simp add: phazer_io_def phazer_apply_dryrun)
    qed
  qed
qed

lemma vampirisms_io_dryrun:
  "flag_cols (snd (vampirisms_io flagging inset True st)) = flag_cols st
   \<and> filter is_write (io_trace (snd (vampirisms_io flagging inset True st)))
       = filter is_write (io_trace st)"
  by (simp add: vampirisms_io_def Let_def log_io_def split: option.splits sum.splits)

text \<open>
  C9. In a dry run neither \<open>phazer\<close> nor \<open>vampirisms\<close> changes the \<open>FLAG\<close> column of
  any table or creates a table, and neither adds to the trace an event that opens a table
  for writing, copies one or writes a column; this holds whatever the flagging computes,
  also when it raises or when a table is missing.
\<close>

theorem dryrun_writes_nothing:
  "flag_cols (snd (phazer_io flagging col inset outset True st)) = flag_cols st
   \<and> filter is_write (io_trace (snd (phazer_io flagging col inset outset True st)))
       = filter is_write (io_trace st)
   \<and> flag_cols (snd (vampirisms_io vflagging name True st)) = flag_cols st
   \<and> filter is_write (io_trace (snd (vampirisms_io vflagging name True st)))
       = filter is_write (io_trace st)"
  using phazer_io_dryrun [of flagging col inset outset st] vampirisms_io_dryrun [of vflagging name st]
  by simp

text \<open>For comparison, the same call outside a dry run writes the flags.\<close>

lemma phazer_io_applies:
  "phazer_io (\<lambda>st. Inr ([True, False], [0, 2])) ''DATA'' [''a.ms''] None False
     \<lparr>flag_cols = [''a.ms'' \<mapsto> [[[False]], [[False]]]], io_trace = []\<rparr>
   = (None, \<lparr>flag_cols = [''a.ms'' \<mapsto> [[[True]], [[False]]]],
             io_trace = [Open_table ''a.ms'' True, Get_col ''a.ms'' ''DATA'', Get_col ''a.ms'' ''FLAG'',
                         Get_col ''a.ms'' ''UVW'', Get_col ''a.ms'' ''ANTENNA1'',
                         Get_col ''a.ms'' ''ANTENNA2'', Close_table ''a.ms'',
                         Open_table ''a.ms'' False, Get_col ''a.ms'' ''FLAG'',
                         Put_col ''a.ms'' ''FLAG'', Close_table ''a.ms'']\<rparr>)"
  by (simp add: phazer_io_def phazer_apply_def phazer_apply_one_def log_io_def flag_selected_def
      Let_def)

theorem dryrun_writes_nothing_witness:
  "flag_cols (snd (phazer_io (\<lambda>st. Inr ([True, False], [0, 2])) ''DATA'' [''a.ms''] None True
       \<lparr>flag_cols = [''a.ms'' \<mapsto> [[[False]], [[False]]]], io_trace = []\<rparr>))
     = [''a.ms'' \<mapsto> [[[False]], [[False]]]]
   \<and> filter is_write (io_trace (snd (phazer_io (\<lambda>st. Inr ([True, False], [0, 2])) ''DATA'' [''a.ms''] None True
       \<lparr>flag_cols = [''a.ms'' \<mapsto> [[[False]], [[False]]]], io_trace = []\<rparr>))) = []
   \<and> flag_cols (snd (vampirisms_io (\<lambda>st. Inr [True, False]) ''a.ms'' True
       \<lparr>flag_cols = [''a.ms'' \<mapsto> [[[False]], [[False]]]], io_trace = []\<rparr>))
     = [''a.ms'' \<mapsto> [[[False]], [[False]]]]
   \<and> filter is_write (io_trace (snd (vampirisms_io (\<lambda>st. Inr [True, False]) ''a.ms'' True
       \<lparr>flag_cols = [''a.ms'' \<mapsto> [[[False]], [[False]]]], io_trace = []\<rparr>))) = []"
  using dryrun_writes_nothing [of "\<lambda>st. Inr ([True, False], [0, 2])" "''DATA''" "[''a.ms'']" None
      "\<lparr>flag_cols = [''a.ms'' \<mapsto> [[[False]], [[False]]]], io_trace = []\<rparr>"
      "\<lambda>st. Inr [True, False]" "''a.ms''"]
  by simp

section \<open>The plot axis and the mask\<close>

lemma robust_stats_axis:
  assumes "robust_stats lib u n tm th True = Inr (Some (fit, ave, std))"
  shows "\<exists>fit'. robust_stats lib u n tm th False = Inr (Some (fit', ave, std))"
proof -
  let ?c = "sigma_clip lib th u"
  let ?fg = "fit_gaussian lib ?c n (length (filter isfinite ?c)) (nanmean lib ?c) (nanstd lib ?c)"
  let ?cs = "choose_stats tm (nanmean lib ?c) (nanstd lib ?c) (nanmedian lib ?c) (mad_std lib ?c)"
  show ?thesis
  proof (cases ?fg)
    case (Inl e)
    then have "robust_stats lib u n tm th True = Inl e"
      by (simp add: robust_stats_def Let_def fl_eq_nan)
    with assms show ?thesis by simp
  next
    case (Inr f)
    obtain bc w p where f: "f = (bc, w, p)" by (cases f)
    show ?thesis
    proof (cases "?cs (Some p)")
      case (Inl e)
      with Inr f have "robust_stats lib u n tm th True = Inl e"
        by (simp add: robust_stats_def Let_def fl_eq_nan)
      with assms show ?thesis by simp
    next
      case cs: (Inr q)
      obtain ave' std' where q: "q = (ave', std')" by (cases q)
      from Inr f cs q have "robust_stats lib u n tm th True = Inr (Some (Some (bc, w, p), ave', std'))"
        by (simp add: robust_stats_def Let_def fl_eq_nan)
      with assms have eq: "ave' = ave" "std' = std" by simp_all
      show ?thesis
      proof (cases "tm = ''fit''")
        case True
        with Inr f cs q eq have "robust_stats lib u n tm th False = Inr (Some (Some (bc, w, p), ave, std))"
          by (simp add: robust_stats_def Let_def fl_eq_nan)
        then show ?thesis by blast
      next
        case False
        then have "?cs None = ?cs (Some p)" by (simp add: choose_stats_def)
        with False cs q eq have "robust_stats lib u n tm th False = Inr (Some (None, ave, std))"
          by (simp add: robust_stats_def Let_def fl_eq_nan)
        then show ?thesis by blast
      qed
    qed
  qed
qed

lemma histoclip_few_points:
  assumes "length msk = length data" and "length gruvcoord = length data"
    and "length (filter isfinite (uvgrid data msk gruvcoord)) < 3"
  shows "histoclip lib data msk gruvcoord unflags threshmode threshold ax title =
           Inr (replicate (length data) False, ax)"
  using assms by (simp add: histoclip_def Let_def)

lemma histoclip_shapes:
  assumes "histoclip lib data msk gruvcoord unflags threshmode threshold ax title = Inr res"
  shows "length msk = length data \<and> length gruvcoord = length data"
proof (rule ccontr)
  assume "\<not> (length msk = length data \<and> length gruvcoord = length data)"
  then have "histoclip lib data msk gruvcoord unflags threshmode threshold ax title = Inl ValueError"
    by (simp add: histoclip_def)
  with assms show False by simp
qed

lemma histoclip_returns_stats:
  assumes "histoclip lib data msk gruvcoord unflags threshmode threshold ax title = Inr res"
    and "3 \<le> length (filter isfinite (uvgrid data msk gruvcoord))"
  shows "\<exists>fit ave std.
           robust_stats lib (uvgrid data msk gruvcoord)
             (length (filter isfinite (uvgrid data msk gruvcoord))) threshmode threshold (ax \<noteq> None)
           = Inr (Some (fit, ave, std))"
proof -
  let ?u = "uvgrid data msk gruvcoord"
  let ?rs = "robust_stats lib ?u (length (filter isfinite ?u)) threshmode threshold (ax \<noteq> None)"
  note sh = histoclip_shapes [OF assms(1)]
  show ?thesis
  proof (cases ?rs)
    case (Inl e)
    then have "histoclip lib data msk gruvcoord unflags threshmode threshold ax title = Inl e"
      using sh assms(2) by (simp add: histoclip_def Let_def)
    with assms(1) show ?thesis by simp
  next
    case (Inr r)
    then obtain p where "r = Some p"
      using robust_stats_not_noflags [of lib ?u "length (filter isfinite ?u)" threshmode threshold "ax \<noteq> None"]
      by (cases r) auto
    moreover obtain fit ave std where "p = (fit, ave, std)" by (cases p)
    ultimately show ?thesis using Inr by blast
  qed
qed

text \<open>
  What does hold of the plot axis: a call that returns with an axis returns the mask of
  the call without one, and a call without an axis draws nothing.
\<close>

lemma histoclip_mask_independent_of_axis:
  assumes "histoclip lib data msk gruvcoord unflags threshmode threshold (Some a) title = Inr (m, ax')"
  shows "histoclip lib data msk gruvcoord unflags threshmode threshold None title' = Inr (m, None)"
proof -
  note shc = histoclip_shapes [OF assms]
  then have sh: "length msk = length data" "length gruvcoord = length data" by simp_all
  show ?thesis
  proof (cases "length (filter isfinite (uvgrid data msk gruvcoord)) < 3")
    case True
    from histoclip_few_points [OF sh True, of lib unflags threshmode threshold "Some a" title]
      assms have "m = replicate (length data) False" by simp
    with histoclip_few_points [OF sh True, of lib unflags threshmode threshold None title']
    show ?thesis by simp
  next
    case False
    then have n: "3 \<le> length (filter isfinite (uvgrid data msk gruvcoord))" by simp
    let ?u = "uvgrid data msk gruvcoord"
    let ?n = "length (filter isfinite ?u)"
    from histoclip_returns_stats [OF assms n] obtain fit ave std where
      rs: "robust_stats lib ?u ?n threshmode threshold (Some a \<noteq> None) = Inr (Some (fit, ave, std))"
      by blast
    then have "robust_stats lib ?u ?n threshmode threshold True = Inr (Some (fit, ave, std))"
      by simp
    from robust_stats_axis [OF this] obtain fit' where
      rs': "robust_stats lib ?u ?n threshmode threshold (None \<noteq> (None :: axes option))
              = Inr (Some (fit', ave, std))"
      by auto
    show ?thesis
    proof (cases "clip_select data ave std threshold unflags")
      case (Inl e)
      with assms show ?thesis by (simp add: histoclip_unfold [OF sh n rs])
    next
      case (Inr sel)
      from assms [unfolded histoclip_unfold [OF sh n rs]] Inr have "m = sel"
        by (simp split: option.splits prod.splits sum.splits)
      with Inr show ?thesis by (simp add: histoclip_unfold [OF sh n rs'])
    qed
  qed
qed

lemma histoclip_no_axis_no_drawing:
  assumes "histoclip lib data msk gruvcoord unflags threshmode threshold None title = Inr (m, ax')"
  shows "ax' = None"
proof -
  note shc = histoclip_shapes [OF assms]
  then have sh: "length msk = length data" "length gruvcoord = length data" by simp_all
  show ?thesis
  proof (cases "length (filter isfinite (uvgrid data msk gruvcoord)) < 3")
    case True
    from histoclip_few_points [OF sh True, of lib unflags threshmode threshold None title]
      assms show ?thesis by simp
  next
    case False
    then have n: "3 \<le> length (filter isfinite (uvgrid data msk gruvcoord))" by simp
    from histoclip_returns_stats [OF assms n] obtain fit ave std where
      rs: "robust_stats lib (uvgrid data msk gruvcoord)
             (length (filter isfinite (uvgrid data msk gruvcoord))) threshmode threshold
             (None \<noteq> (None :: axes option)) = Inr (Some (fit, ave, std))"
      by blast
    from assms show ?thesis
      unfolding histoclip_unfold [OF sh n rs]
      by (cases "clip_select data ave std threshold unflags") simp_all
  qed
qed

section \<open>The values of autocorrelation rows\<close>

lemma stokes_flag_of_flags: "snd (stokes pol ps fs) = snd (stokes pol ps' fs)"
  by (simp add: stokes_def Let_def)

lemma blank_flagged_nth:
  assumes "r < length data" and "r < length flags"
  shows "blank_flagged data flags ! r
           = map (\<lambda>(d, f). if f then None else d) (zip (data ! r) (flags ! r))"
  using assms by (simp add: blank_flagged_def)

lemma stokes_row_flags:
  assumes "list_all2 (\<lambda>ps ps'. length ps = length ps') drow drow'"
  shows "map snd (map (\<lambda>(ps, fs). stokes pol ps fs) (zip drow frow))
           = map snd (map (\<lambda>(ps, fs). stokes pol ps fs) (zip drow' frow))"
  using assms
proof (induction arbitrary: frow rule: list_all2_induct)
  case Nil
  show ?case by simp
next
  case (Cons x xs y ys)
  show ?case
  proof (cases frow)
    case Nil
    then show ?thesis by simp
  next
    case (Cons f fs)
    with Cons.IH [of fs] stokes_flag_of_flags [of pol x f y] show ?thesis by simp
  qed
qed

lemma stokes_all_flags:
  assumes "list_all2 (list_all2 (\<lambda>ps ps'. length ps = length ps')) data data'"
  shows "map (map snd) (stokes_all pol data flags) = map (map snd) (stokes_all pol data' flags)"
  using assms
proof (induction arbitrary: flags rule: list_all2_induct)
  case Nil
  show ?case by (simp add: stokes_all_def)
next
  case (Cons x xs y ys)
  show ?case
  proof (cases flags)
    case Nil
    then show ?thesis by (simp add: stokes_all_def)
  next
    case (Cons f fs)
    with Cons.IH [of fs] stokes_row_flags [OF Cons.hyps(1), of pol f] show ?thesis
      by (simp add: stokes_all_def)
  qed
qed

lemma list_all2_left_cong:
  assumes "list_all2 R xs ys" and "\<And>x y z. R x y \<Longrightarrow> P x z = P y z"
  shows "list_all2 P xs zs = list_all2 P ys zs"
  using assms(1)
proof (induction arbitrary: zs rule: list_all2_induct)
  case Nil
  show ?case by simp
next
  case (Cons x xs y ys)
  show ?case
  proof (cases zs)
    case Nil
    then show ?thesis by simp
  next
    case (Cons z zs')
    with Cons.IH [of zs'] assms(2) [OF Cons.hyps(1), of z] show ?thesis by simp
  qed
qed

lemma list_all_cong_rel:
  assumes "list_all2 R xs ys" and "\<And>x y. R x y \<Longrightarrow> Q x = Q y"
  shows "list_all Q xs = list_all Q ys"
  using assms(1)
proof (induction rule: list_all2_induct)
  case Nil
  show ?case by simp
next
  case (Cons x xs y ys)
  with assms(2) [OF Cons.hyps(1)] show ?case by simp
qed

lemma ms_shapes_ok_shape:
  assumes "list_all2 (list_all2 (\<lambda>ps ps'. length ps = length ps')) data data'"
  shows "ms_shapes_ok data flags field antenna1 antenna2 fieldsel channels
           = ms_shapes_ok data' flags field antenna1 antenna2 fieldsel channels"
proof -
  have len: "length data = length data'" using assms by (rule list_all2_lengthD)
  have cell: "(ps \<noteq> [] \<and> length ps = length fs) = (ps' \<noteq> [] \<and> length ps' = length fs)"
    if "length ps = length ps'" for ps ps' :: "cfl list" and fs :: "bool list"
    using that by auto
  have row: "list_all2 (\<lambda>ps fs. ps \<noteq> [] \<and> length ps = length fs) drow frow
           = list_all2 (\<lambda>ps fs. ps \<noteq> [] \<and> length ps = length fs) drow' frow"
    if "list_all2 (\<lambda>ps ps'. length ps = length ps') drow drow'"
    for drow drow' :: "cfl list list" and frow :: "bool list list"
    using that cell by (rule list_all2_left_cong)
  have a: "list_all2 (list_all2 (\<lambda>ps fs. ps \<noteq> [] \<and> length ps = length fs)) data flags
         = list_all2 (list_all2 (\<lambda>ps fs. ps \<noteq> [] \<and> length ps = length fs)) data' flags"
    using assms row by (rule list_all2_left_cong)
  have b: "list_all (\<lambda>row. length row = length ch) data = list_all (\<lambda>row. length row = length ch) data'"
    for ch :: "bool list"
  proof (rule list_all_cong_rel [OF assms])
    fix x y :: "cfl list list"
    assume "list_all2 (\<lambda>ps ps'. length ps = length ps') x y"
    then have "length x = length y" by (rule list_all2_lengthD)
    then show "(length x = length ch) = (length y = length ch)" by simp
  qed
  show ?thesis
    unfolding ms_shapes_ok_def a len
    by (cases channels) (simp_all add: b)
qed

lemma all_none_eq:
  assumes "list_all (\<lambda>x. x = None) xs" and "list_all (\<lambda>x. x = None) ys" and "length xs = length ys"
  shows "xs = ys"
  using assms(3,1,2) by (induction xs ys rule: list_induct2) simp_all

text \<open>
  What \<open>readdata\<close> returns does not depend on the visibilities of the autocorrelation
  rows: two data columns of one shape that agree on every row with
  \<open>antenna1 \<noteq> antenna2\<close> give the same result, data and flags.
\<close>

lemma readdata_ignores_autocorrelation_values:
  assumes shape: "list_all2 (list_all2 (\<lambda>ps ps'. length ps = length ps')) data data'"
    and agree: "\<forall>r<length data. antenna1 ! r \<noteq> antenna2 ! r \<longrightarrow> data ! r = data' ! r"
  shows "readdata data flags field antenna1 antenna2 fieldsel channels baselines pol
           = readdata data' flags field antenna1 antenna2 fieldsel channels baselines pol"
proof (cases "ms_shapes_ok data flags field antenna1 antenna2 fieldsel channels \<and> (pol = ''i'' \<or> pol = ''q'')
               \<and> \<not> (baselines = Some [] \<and> zip antenna1 antenna2 \<noteq> [])")
  case False
  then show ?thesis
    using ms_shapes_ok_shape [OF shape, of flags field antenna1 antenna2 fieldsel channels]
    by (auto simp add: readdata_def flag_baselines_def Let_def)
next
  case True
  then have sh: "ms_shapes_ok data flags field antenna1 antenna2 fieldsel channels"
    and pol: "pol = ''i'' \<or> pol = ''q''"
    and nb: "\<not> (baselines = Some [] \<and> zip antenna1 antenna2 \<noteq> [])" by simp_all
  have sh': "ms_shapes_ok data' flags field antenna1 antenna2 fieldsel channels"
    using sh ms_shapes_ok_shape [OF shape] by simp
  let ?F = "\<lambda>dat. select_baselines baselines antenna1 antenna2
                    (flag_channels channels
                      (flag_autocorrelations antenna1 antenna2
                        (flag_fields fieldsel field (map (map snd) (stokes_all pol dat flags)))))"
  let ?D = "\<lambda>dat. blank_flagged (map (map fst) (stokes_all pol dat flags)) (?F dat)"
  have rd: "readdata data flags field antenna1 antenna2 fieldsel channels baselines pol = Inr (?D data, ?F data)"
    by (rule readdata_Inr [OF sh pol nb])
  have rd': "readdata data' flags field antenna1 antenna2 fieldsel channels baselines pol = Inr (?D data', ?F data')"
    by (rule readdata_Inr [OF sh' pol nb])
  have F: "?F data = ?F data'"
    using stokes_all_flags [OF shape, of pol flags] by simp
  have len: "length data = length data'" using shape by (rule list_all2_lengthD)
  have la: "length antenna1 = length data" "length flags = length data"
    using sh by (auto simp add: ms_shapes_ok_def dest: list_all2_lengthD)
  have lD: "length (?D data) = length data" "length (?D data') = length data"
    using readdata_unfold(1) [OF rd] la len
    by (simp_all add: blank_flagged_def stokes_all_def select_baselines_def flag_channels_def
        flag_autocorrelations_def flag_fields_def flag_rows_length ms_shapes_ok_def
        split: option.splits)
  have "?D data = ?D data'"
  proof (rule nth_equalityI)
    show "length (?D data) = length (?D data')" using lD by simp
  next
    fix r assume "r < length (?D data)"
    then have r: "r < length data" using lD by simp
    show "?D data ! r = ?D data' ! r"
    proof (cases "antenna1 ! r = antenna2 ! r")
      case True
      have r1: "r < length antenna1" using r la by simp
      note a = readdata_autocorr_rows [OF rd r1 True]
      note a' = readdata_autocorr_rows [OF rd' r1 True]
      have "length (data ! r) = length (data' ! r)"
        using shape r by (auto simp add: list_all2_conv_all_nth)
      with a a' show ?thesis by (intro all_none_eq) simp_all
    next
      case False
      with agree r have eq: "data ! r = data' ! r" by simp
      have "stokes_all pol data flags ! r = stokes_all pol data' flags ! r"
        using r la len eq by (simp add: stokes_all_def)
      moreover have "r < length (stokes_all pol data flags)" "r < length (stokes_all pol data' flags)"
        using r la len by (simp_all add: stokes_all_def)
      moreover have "r < length (?F data)" using readdata_autocorr_rows [OF rd] lD r
        by (simp add: blank_flagged_def)
      ultimately show ?thesis
        using F by (simp add: blank_flagged_nth)
    qed
  qed
  with F rd rd' show ?thesis by simp
qed

section \<open>Autocorrelation rows in the grid\<close>

lemma readdata_lengths:
  assumes rd: "readdata data flags field antenna1 antenna2 fieldsel channels baselines pol = Inr (d, f)"
  shows "length d = length data \<and> length f = length data"
proof -
  note sh = readdata_unfold(1) [OF rd] and pol = readdata_unfold(2) [OF rd]
    and nb = readdata_unfold(3) [OF rd]
  let ?n = "length data"
  have l2: "list_all2 (list_all2 (\<lambda>ps fs. ps \<noteq> [] \<and> length ps = length fs)) data flags"
    and la: "length antenna1 = ?n" "length antenna2 = ?n"
    using sh by (simp_all add: ms_shapes_ok_def)
  have lf: "length flags = ?n" using l2 by (simp add: list_all2_lengthD)
  define st where "st = stokes_all pol data flags"
  define flags1 where "flags1 = flag_fields fieldsel field (map (map snd) st)"
  define flags2 where "flags2 = flag_autocorrelations antenna1 antenna2 flags1"
  define flags3 where "flags3 = flag_channels channels flags2"
  define flags4 where "flags4 = select_baselines baselines antenna1 antenna2 flags3"
  have "Inr (d, f) = (Inr (blank_flagged (map (map fst) st) flags4, flags4)
          :: error + (cfl list list \<times> bool list list))"
    unfolding flags4_def flags3_def flags2_def flags1_def st_def
    by (rule trans [OF rd [symmetric] readdata_Inr [OF sh pol nb]])
  then have res: "d = blank_flagged (map (map fst) st) flags4" "f = flags4"
    by simp_all
  have st: "length st = ?n" using lf by (simp add: st_def stokes_all_def)
  have f1: "length flags1 = ?n"
  proof (cases fieldsel)
    case None
    then show ?thesis using st by (simp add: flags1_def flag_fields_def)
  next
    case (Some fl)
    then have "length field = ?n" using sh by (simp add: ms_shapes_ok_def)
    then show ?thesis using Some st
      by (simp add: flags1_def flag_fields_def flag_rows_length)
  qed
  have f2: "length flags2 = ?n"
    using f1 la by (simp add: flags2_def flag_autocorrelations_def flag_rows_length)
  have f3: "length flags3 = ?n"
    using f2 by (cases channels) (simp_all add: flags3_def flag_channels_def)
  have f4: "length flags4 = ?n"
    using f3 la by (cases baselines) (simp_all add: flags4_def select_baselines_def flag_rows_length)
  show ?thesis using st f4 by (simp add: res blank_flagged_def)
qed

lemma grid_cell_keeps:
  assumes "length nmdata = n" and "length gruvcoord = n" and "length u = n" and "length v = n"
    and "length collaflags = n" and "r < n" and "collaflags ! r"
  shows "length (fst (grid_cell lib data collaflags u v uvmin uvmax duv cell (nmdata, gruvcoord))) = n
       \<and> length (snd (grid_cell lib data collaflags u v uvmin uvmax duv cell (nmdata, gruvcoord))) = n
       \<and> fst (grid_cell lib data collaflags u v uvmin uvmax duv cell (nmdata, gruvcoord)) ! r = nmdata ! r
       \<and> snd (grid_cell lib data collaflags u v uvmin uvmax duv cell (nmdata, gruvcoord)) ! r = gruvcoord ! r"
proof -
  define active where "active = grid_active_visibs u v collaflags uvmin uvmax duv (fst cell) (snd cell)"
  have la: "length active = n" using assms by (simp add: active_def grid_active_visibs_def)
  have ar: "\<not> active ! r" using assms by (simp add: active_def grid_active_visibs_def)
  show ?thesis
    using la ar assms(1,2,6)
    by (simp add: grid_cell_def active_def [symmetric] Let_def)
qed

lemma grid_fold_keeps:
  assumes "length u = n" and "length v = n" and "length collaflags = n" and "r < n" and "collaflags ! r"
  shows "length (fst st) = n \<and> length (snd st) = n \<Longrightarrow>
         length (fst (fold (grid_cell lib data collaflags u v uvmin uvmax duv) cells st)) = n
       \<and> length (snd (fold (grid_cell lib data collaflags u v uvmin uvmax duv) cells st)) = n
       \<and> fst (fold (grid_cell lib data collaflags u v uvmin uvmax duv) cells st) ! r = fst st ! r
       \<and> snd (fold (grid_cell lib data collaflags u v uvmin uvmax duv) cells st) ! r = snd st ! r"
proof (induction cells arbitrary: st)
  case Nil
  then show ?case by simp
next
  case (Cons c cells)
  obtain nm gr where st: "st = (nm, gr)" by (cases st)
  from Cons.prems st have l: "length nm = n" "length gr = n" by simp_all
  note k = grid_cell_keeps [OF l assms, of lib data uvmin uvmax duv c]
  from k have "length (fst (grid_cell lib data collaflags u v uvmin uvmax duv c st)) = n
     \<and> length (snd (grid_cell lib data collaflags u v uvmin uvmax duv c st)) = n"
    by (simp add: st)
  from Cons.IH [OF this] k show ?case by (simp add: st)
qed

lemma active_visibs_member:
  assumes "r < length av" and "length msk = length av" and "length gruvcoord = length av"
    and "\<not> msk ! r" and "gruvcoord ! r = (uu, vv)"
  shows "av ! r \<in> set (active_visibs av msk gruvcoord uu vv)"
proof -
  have "(av ! r, msk ! r, gruvcoord ! r) \<in> set (zip av (zip msk gruvcoord))"
    using assms(1-3) by (metis length_zip min.idem nth_mem nth_zip)
  then have "(av ! r, msk ! r, gruvcoord ! r)
      \<in> set (filter (\<lambda>(x, m, g). fst g = uu \<and> snd g = vv \<and> m \<noteq> True) (zip av (zip msk gruvcoord)))"
    using assms(4,5) by simp
  then have "fst (av ! r, msk ! r, gruvcoord ! r) \<in> set (active_visibs av msk gruvcoord uu vv)"
    unfolding active_visibs_def set_map by (rule imageI)
  then show ?thesis by simp
qed

lemma readdata_rows3:
  "readdata [[[Some 7, Some 7]], [[Some 3, Some 3]], [[Some 5, Some 5]]]
      [[[False, False]], [[False, False]], [[False, False]]] [0, 0, 0] [0, 0, 0] [0, 1, 2]
      None None None ''i''
   = Inr ([[None], [Some 3], [Some 5]], [[True], [False], [False]])"
  by (simp add: readdata_def ms_shapes_ok_def stokes_all_def stokes_def c_weight_def c_div_def
      flag_fields_def flag_autocorrelations_def flag_rows_def flag_channels_def
      flag_baselines_def select_baselines_def blank_flagged_def Let_def)

lemma readdata_rows2:
  "readdata [[[Some 3, Some 3]], [[Some 5, Some 5]]]
      [[[False, False]], [[False, False]]] [0, 0] [0, 0] [1, 2] None None None ''i''
   = Inr ([[Some 3], [Some 5]], [[False], [False]])"
  by (simp add: readdata_def ms_shapes_ok_def stokes_all_def stokes_def c_weight_def c_div_def
      flag_fields_def flag_autocorrelations_def flag_rows_def flag_channels_def
      flag_baselines_def select_baselines_def blank_flagged_def Let_def)

lemmas phazer_grid_defs = phazer_grid_def np_arange_def upt_rec grid_cell_def
  grid_active_visibs_def collaflags_of_def scalar_average_def numpy_astropy_def np_nanmean_def
  finite_values_def isfinite_def Let_def

lemma phazer_grid_rows3:
  "phazer_grid (numpy_astropy fit_fails) [[None], [Some 3], [Some 5]] [[True], [False], [False]]
      [0, 101 / 2, 301 / 2] [0, 101 / 2, 101 / 2] 0 None 100
   = Inr ([Some 0, Some 3, Some 5], [(0, 0), (50, 50), (150, 50)])"
  by (simp add: phazer_grid_defs)

lemma phazer_grid_rows2:
  "phazer_grid (numpy_astropy fit_fails) [[Some 3], [Some 5]] [[False], [False]]
      [101 / 2, 301 / 2] [101 / 2, 101 / 2] 0 None 100
   = Inr ([Some 3, Some 5], [(100, 100), (200, 100)])"
  by (simp add: phazer_grid_defs)

lemma uvgrid_rows3:
  "uvgrid [Some 0, Some 3, Some 5] [False, False, False] [(0, 0), (50, 50), (150, 50)]
   = [Some 0, None, None, Some 3, None, Some 5]"
  by (simp add: grid_defs)

lemma uvgrid_rows2:
  "uvgrid [Some 3, Some 5] [False, False] [(100, 100), (200, 100)] = [Some 3, Some 5]"
  by (simp add: grid_defs)

lemma clip_rows3:
  "astropy_sigma_clip 1 [Some 0, None, None, Some 3, None, Some 5] = [Some 3, Some 5]"
  by (simp add: clip_defs stat_defs finite_values_def isfinite_def Let_def)

lemma rs_rows3:
  "robust_stats (numpy_astropy fit_fails) [Some 0, None, None, Some 3, None, Some 5] n
     ''std'' 1 False = Inr (Some (None, Some 4, Some 1))"
  by (simp add: robust_stats_def numpy_astropy_def clip_rows3 choose_stats_def stat_defs Let_def)

lemma histoclip_rows3:
  "histoclip (numpy_astropy fit_fails) [Some 0, Some 3, Some 5] [False, False, False]
      [(0, 0), (50, 50), (150, 50)] None ''std'' 1 None '''' = Inr ([False, False, True], None)"
proof -
  let ?d = "[Some 0, Some 3, Some (5::real)]"
  let ?k = "[False, False, False]"
  let ?g = "[(0, 0), (50, 50), (150::real, 50::real)]"
  have n: "3 \<le> length (filter isfinite (uvgrid ?d ?k ?g))"
    by (simp add: uvgrid_rows3 isfinite_def)
  have r: "robust_stats (numpy_astropy fit_fails) (uvgrid ?d ?k ?g)
             (length (filter isfinite (uvgrid ?d ?k ?g))) ''std'' 1
             (None \<noteq> (None :: axes option)) = Inr (Some (None, Some 4, Some 1))"
    by (simp add: uvgrid_rows3 rs_rows3)
  show ?thesis
    by (simp add: histoclip_unfold [OF _ _ n r] clip_select_def)
qed

lemma histoclip_rows2:
  "histoclip (numpy_astropy fit_fails) [Some 3, Some 5] [False, False]
      [(100, 100), (200, 100)] None ''std'' 1 None '''' = Inr ([False, False], None)"
  by (simp add: histoclip_few_points uvgrid_rows2 isfinite_def)

lemma phazer_newflags_rows3:
  "phazer_newflags (numpy_astropy fit_fails)
      [[[Some 7, Some 7]], [[Some 3, Some 3]], [[Some 5, Some 5]]]
      [[[False, False]], [[False, False]], [[False, False]]] [0, 0, 0] [0, 0, 0] [0, 1, 2]
      [0, 101 / 2, 301 / 2] [0, 101 / 2, 101 / 2] None None None ''i'' 0 None 100
      ''all'' ''std'' 1
   = Inr [False, False, True]"
  by (simp add: phazer_newflags_def readdata_rows3 phazer_grid_rows3 phazer_clip_def
      histoclip_rows3)

lemma phazer_newflags_rows2:
  "phazer_newflags (numpy_astropy fit_fails)
      [[[Some 3, Some 3]], [[Some 5, Some 5]]]
      [[[False, False]], [[False, False]]] [0, 0] [0, 0] [1, 2]
      [101 / 2, 301 / 2] [101 / 2, 101 / 2] None None None ''i'' 0 None 100
      ''all'' ''std'' 1
   = Inr [False, False]"
  by (simp add: phazer_newflags_def readdata_rows2 phazer_grid_rows2 phazer_clip_def
      histoclip_rows2)

text \<open>
  C10. Let \<open>readdata\<close> return for any selection of fields, channels and baselines and
  either polarisation, and let row \<open>r\<close> have \<open>antenna1 = antenna2\<close>. The row is flagged
  and holds \<open>NaN\<close> in every channel, and the gridding takes it into no cell. It is
  not left out of the statistics for that: the gridding returns, the row keeps the value 0
  and the grid position \<open>(0, 0)\<close> that \<open>nmdata\<close> and \<open>gruvcoord\<close> were initialised with
  (lines 808-815), and under the mask that ignores nothing (line 924) it is one of the
  samples of the cell \<open>(0, 0)\<close> from which \<open>histoclip\<close> builds its grid: a finite value,
  where the comment of line 923 has the flags \<open>in the data (using nan operations)\<close>.
  \<open>duv\<close> is not zero, being a reciprocal.
\<close>

theorem phazer_grid_autocorrelations:
  assumes "readdata data flags field antenna1 antenna2 fieldsel channels baselines pol = Inr (d, f)"
    and "length u = length data" and "length v = length data"
    and "duv \<noteq> 0"
    and "r < length antenna1" and "antenna1 ! r = antenna2 ! r"
  shows "\<exists>nmdata gruvcoord.
           phazer_grid lib d f u v uvmin uvmax duv = Inr (nmdata, gruvcoord)
         \<and> length nmdata = length data \<and> length gruvcoord = length data
         \<and> list_all (\<lambda>x. x = None) (d ! r)
         \<and> nmdata ! r = Some 0 \<and> gruvcoord ! r = (0, 0)
         \<and> Some 0 \<in> set (active_visibs nmdata (replicate (length nmdata) False) gruvcoord 0 0)"
proof -
  let ?n = "length data"
  note a = readdata_autocorr_rows [OF assms(1,5,6)]
  note l = readdata_lengths [OF assms(1)]
  have r: "r < ?n" using a l by simp
  have ne: "u \<noteq> []" "v \<noteq> []" using r assms(2,3) by auto
  define cells where "cells =
    concat (map (\<lambda>uu. map (\<lambda>vv. (uu, vv))
       (np_arange (of_int \<lfloor>case uvmax of None \<Rightarrow> Min (set v) | Some m \<Rightarrow> - m\<rfloor>)
                  (of_int \<lceil>case uvmax of None \<Rightarrow> Max (set v) | Some m \<Rightarrow> m\<rceil>) duv))
       (np_arange (of_int \<lfloor>case uvmax of None \<Rightarrow> Min (set u) | Some m \<Rightarrow> - m\<rfloor>)
                  (of_int \<lceil>case uvmax of None \<Rightarrow> Max (set u) | Some m \<Rightarrow> m\<rceil>) duv))"
  define res where "res = fold (grid_cell lib d (collaflags_of f) u v uvmin uvmax duv) cells
                            (replicate ?n (Some 0), replicate ?n (0, 0))"
  have pg: "phazer_grid lib d f u v uvmin uvmax duv = Inr (fst res, snd res)"
    using ne l assms(2,3) by (simp add: phazer_grid_def Let_def res_def cells_def)
  have lc: "length (collaflags_of f) = ?n" using l by (simp add: collaflags_of_def)
  have c: "collaflags_of f ! r" using a by simp
  have k: "length (fst res) = ?n \<and> length (snd res) = ?n
         \<and> fst res ! r = Some 0 \<and> snd res ! r = (0, 0)"
    using grid_fold_keeps [OF assms(2,3) lc r c, of "(replicate ?n (Some 0), replicate ?n (0, 0))"
        lib d uvmin uvmax duv cells] r
    by (simp add: res_def)
  have m: "fst res ! r \<in> set (active_visibs (fst res) (replicate (length (fst res)) False) (snd res) 0 0)"
    using k r by (intro active_visibs_member) simp_all
  have dn: "list_all (\<lambda>x. x = None) (d ! r)" using a by simp
  show ?thesis
    using pg k m dn by (intro exI [of _ "fst res"] exI [of _ "snd res"]) simp
qed

text \<open>
  An instance: a table of an autocorrelation row and two cross-correlation rows of
  amplitudes 3 and 5 in neighbouring cells of 100 wavelengths, Stokes I, mode \<open>all\<close>,
  policy \<open>std\<close>, threshold 1. The placeholder 0 of the autocorrelation row is the third
  finite value of the grid; it is clipped, the mean of 3 and 5 is 4, their deviation 1, and
  the row of amplitude 5 is flagged. The same table without the autocorrelation row has
  two finite grid values, which \<open>histoclip\<close> answers with no flags.
\<close>

theorem phazer_grid_autocorrelations_witness:
  "readdata [[[Some 7, Some 7]], [[Some 3, Some 3]], [[Some 5, Some 5]]]
      [[[False, False]], [[False, False]], [[False, False]]] [0, 0, 0] [0, 0, 0] [0, 1, 2]
      None None None ''i''
     = Inr ([[None], [Some 3], [Some 5]], [[True], [False], [False]])
   \<and> phazer_grid (numpy_astropy fit_fails) [[None], [Some 3], [Some 5]] [[True], [False], [False]]
      [0, 101 / 2, 301 / 2] [0, 101 / 2, 101 / 2] 0 None 100
     = Inr ([Some 0, Some 3, Some 5], [(0, 0), (50, 50), (150, 50)])
   \<and> Some 0 \<in> set (active_visibs [Some 0, Some 3, Some 5] [False, False, False]
                      [(0, 0), (50, 50), (150, 50)] 0 0)
   \<and> phazer_newflags (numpy_astropy fit_fails)
        [[[Some 7, Some 7]], [[Some 3, Some 3]], [[Some 5, Some 5]]]
        [[[False, False]], [[False, False]], [[False, False]]] [0, 0, 0] [0, 0, 0] [0, 1, 2]
        [0, 101 / 2, 301 / 2] [0, 101 / 2, 101 / 2] None None None ''i'' 0 None 100
        ''all'' ''std'' 1
     = Inr [False, False, True]
   \<and> phazer_newflags (numpy_astropy fit_fails)
        [[[Some 3, Some 3]], [[Some 5, Some 5]]]
        [[[False, False]], [[False, False]]] [0, 0] [0, 0] [1, 2]
        [101 / 2, 301 / 2] [101 / 2, 101 / 2] None None None ''i'' 0 None 100
        ''all'' ''std'' 1
     = Inr [False, False]"
proof -
  let ?L = "numpy_astropy fit_fails"
  let ?d = "[[None], [Some 3], [Some (5::complex)]]"
  let ?f = "[[True], [False], [False]]"
  let ?u = "[0, 101 / 2, 301 / (2::real)]"
  let ?v = "[0, 101 / 2, 101 / (2::real)]"
  have lu: "length ?u = length [[[Some 7, Some 7]], [[Some 3, Some 3]], [[Some 5, Some (5::complex)]]]"
    and lv: "length ?v = length [[[Some 7, Some 7]], [[Some 3, Some 3]], [[Some 5, Some (5::complex)]]]"
    and dz: "(100::real) \<noteq> 0"
    and r: "(0::nat) < length [0, 0, 0::int]" and a: "[0, 0, 0::int] ! 0 = [0, 1, 2] ! 0"
    by simp_all
  from phazer_grid_autocorrelations [where lib = ?L and uvmin = 0 and uvmax = None,
      OF readdata_rows3 lu lv dz r a]
  obtain nmdata gruvcoord where
    g: "phazer_grid ?L ?d ?f ?u ?v 0 None 100 = Inr (nmdata, gruvcoord)"
    and m: "Some 0 \<in> set (active_visibs nmdata (replicate (length nmdata) False) gruvcoord 0 0)"
    by blast
  from g have "nmdata = [Some 0, Some 3, Some 5]" "gruvcoord = [(0, 0), (50, 50), (150, 50)]"
    by (simp_all add: phazer_grid_rows3)
  with m have "Some 0 \<in> set (active_visibs [Some 0, Some 3, Some 5] [False, False, False]
                      [(0, 0), (50, 50), (150::real, 50::real)] 0 0)"
    by (simp add: numeral_3_eq_3)
  then show ?thesis
    using readdata_rows3 phazer_grid_rows3 phazer_newflags_rows3 phazer_newflags_rows2
    by (intro conjI)
qed

end
